theory Spec2Isabelle
  imports Complex_Main "HOL-Library.Sublist"
begin

section \<open>JavaScript values used by the service layer\<close>

text \<open>
  The request orchestration lives in \<open>services/geminiService.ts\<close> (\<open>analyzeContent\<close> and its
  helpers), the prompt templates in \<open>constants.ts\<close>, and the pre-flight validation in
  \<open>App.tsx\<close> (\<open>handleAnalyze\<close>).

  A JavaScript string is a \<open>string\<close>; a \<open>char\<close> stands for one code unit below 256, so the
  white-space characters of ECMAScript that exist in this range are the ones the model knows.
  A value produced by \<open>JSON.parse\<close> is a \<open>json\<close>; a number is carried as the rational it
  denotes, since the only operation the code applies to a parsed number is the truthiness test.
  A property that is absent reads as \<open>undefined\<close>, which is \<open>None\<close> of \<open>json option\<close>.
\<close>

datatype json =
    JNull
  | JBool bool
  | JNum rat
  | JStr string
  | JArr "json list"
  | JObj "(string \<times> json) list"

text \<open>
  What a \<open>throw\<close> or a rejected promise carries: the \<open>name\<close> and the \<open>message\<close> of the thrown
  object, each possibly \<open>undefined\<close> (the \<open>FileReader\<close> rejects with an event, not an
  \<open>Error\<close>).
\<close>

datatype thrown = Thrown (err_name: "string option") (err_message: "string option")

definition Error :: "string \<Rightarrow> thrown" where
  "Error msg = Thrown (Some ''Error'') (Some msg)"

definition TypeError :: "string \<Rightarrow> thrown" where
  "TypeError msg = Thrown (Some ''TypeError'') (Some msg)"

text \<open>Truthiness of a parsed value, and of a value that may be \<open>undefined\<close>.\<close>

fun truthy :: "json \<Rightarrow> bool" where
  "truthy JNull = False"
| "truthy (JBool b) = b"
| "truthy (JNum n) = (n \<noteq> 0)"
| "truthy (JStr s) = (s \<noteq> [])"
| "truthy (JArr xs) = True"
| "truthy (JObj kvs) = True"

definition truthyVal :: "json option \<Rightarrow> bool" where
  "truthyVal v = (case v of None \<Rightarrow> False | Some j \<Rightarrow> truthy j)"

text \<open>\<open>a || b\<close> where \<open>a\<close> may be \<open>undefined\<close> and \<open>b\<close> is a literal.\<close>

definition orElse :: "json option \<Rightarrow> json \<Rightarrow> json" where
  "orElse a b = (case a of None \<Rightarrow> b | Some j \<Rightarrow> if truthy j then j else b)"

text \<open>
  Reading one of the properties \<open>trends\<close>, \<open>trend\<close>, \<open>headline\<close>, \<open>whyItsHot\<close>,
  \<open>contentIdea\<close> of a parsed value that is not \<open>null\<close>: an object yields its own entry,
  every other value yields \<open>undefined\<close> (no prototype defines one of these names).
  The entries of an object are listed key by key; a lookup takes the first entry of a key.
  Reading a property of \<open>null\<close> throws a \<open>TypeError\<close>, whose message is the engine's;
  \<open>normalizeTrends\<close> handles that case first.
\<close>

fun getProp :: "json \<Rightarrow> string \<Rightarrow> json option" where
  "getProp (JObj kvs) k = map_of kvs k"
| "getProp v k = None"

section \<open>Response cleanup: \<open>cleanJson\<close>\<close>

definition isWhiteSpace :: "char \<Rightarrow> bool" where
  "isWhiteSpace c =
     (c = CHR 0x09 \<or> c = CHR 0x0A \<or> c = CHR 0x0B \<or> c = CHR 0x0C \<or> c = CHR 0x0D
      \<or> c = CHR 0x20 \<or> c = CHR 0xA0)"

definition trimStart :: "string \<Rightarrow> string" where
  "trimStart s = dropWhile isWhiteSpace s"

definition trimEnd :: "string \<Rightarrow> string" where
  "trimEnd s = rev (dropWhile isWhiteSpace (rev s))"

definition trim :: "string \<Rightarrow> string" where
  "trim s = trimEnd (trimStart s)"

definition startsWith :: "string \<Rightarrow> string \<Rightarrow> bool" where
  "startsWith s p = (take (length p) s = p)"

definition endsWith :: "string \<Rightarrow> string \<Rightarrow> bool" where
  "endsWith s p = (length p \<le> length s \<and> drop (length s - length p) s = p)"

text \<open>
  \<open>s.replace(/^P\s*/, '')\<close> for a literal \<open>P\<close>: when \<open>s\<close> starts with \<open>P\<close>, that prefix and
  the white space after it (the quantifier is greedy) are removed; otherwise \<open>s\<close> is unchanged.
\<close>

definition replaceLeading :: "string \<Rightarrow> string \<Rightarrow> string" where
  "replaceLeading p s = (if startsWith s p then trimStart (drop (length p) s) else s)"

text \<open>
  \<open>s.replace(/\s*```$/, '')\<close>: the pattern has no \<open>m\<close> flag, so \<open>$\<close> is the end of the
  string. A match exists exactly when \<open>s\<close> ends with three backticks; the leftmost match
  starts at the beginning of the white space run in front of them, because a backtick is not
  white space.
\<close>

definition replaceTrailingFence :: "string \<Rightarrow> string" where
  "replaceTrailingFence s =
     (if endsWith s ''```'' then trimEnd (take (length s - 3) s) else s)"

definition cleanJson :: "string \<Rightarrow> string" where
  "cleanJson text =
     (let clean = trim text in
      if startsWith clean ''```json'' then
        replaceTrailingFence (replaceLeading ''```json'' clean)
      else if startsWith clean ''```'' then
        replaceTrailingFence (replaceLeading ''```'' clean)
      else clean)"

text \<open>
  Lines 245 and 246 of \<open>analyzeContent\<close>: the reply text always passes through \<open>cleanJson\<close>
  before \<open>JSON.parse\<close>. The parser belongs to the runtime and is a parameter.
\<close>

definition parseReply :: "(string \<Rightarrow> thrown + json) \<Rightarrow> string \<Rightarrow> thrown + json" where
  "parseReply JSON_parse resultText = JSON_parse (cleanJson resultText)"

text \<open>
  A text that can be a JSON text starts, after white space, with one of the characters that
  open a JSON value: a brace, a bracket, a quote, a minus sign, a digit, or the first letter
  of \<open>true\<close>, \<open>false\<close> or \<open>null\<close>.
\<close>

definition beginsLikeJson :: "string \<Rightarrow> bool" where
  "beginsLikeJson x =
     (case trimStart x of [] \<Rightarrow> False | c # cs \<Rightarrow> c \<in> set ''{[\"-0123456789tfn'')"


section \<open>Trend Hunter normalisation\<close>

definition NO_TRENDS_MESSAGE :: string where
  "NO_TRENDS_MESSAGE =
     ''No valid trends found. Please try again with a different niche or check your internet connection.''"

text \<open>
  Step 6 of \<open>analyzeContent\<close> in Trend Hunter mode (lines 249 to 261). The array under
  \<open>trends\<close> is returned as it is (the cast to \<open>TrendItem[]\<close> checks nothing); the fallback
  builds one item from the top-level fields.
\<close>

definition trendsFallback :: "json \<Rightarrow> thrown + json" where
  "trendsFallback parsed =
     (if truthyVal (getProp parsed ''trend'') \<or> truthyVal (getProp parsed ''contentIdea'')
         \<or> truthyVal (getProp parsed ''headline'') then
        Inr (JArr [JObj
          [(''headline'', orElse (getProp parsed ''headline'') (JStr ''Trend Detected'')),
           (''whyItsHot'',
              orElse (getProp parsed ''whyItsHot'') (JStr ''Currently trending in your niche'')),
           (''contentIdea'',
              orElse (getProp parsed ''contentIdea'') (JStr ''Create content around this trend''))]])
      else Inl (Error NO_TRENDS_MESSAGE))"

text \<open>
  \<open>parsed.trends && Array.isArray(parsed.trends) && parsed.trends.length > 0\<close> holds exactly
  when the property is an array with at least one element (an array is always truthy).
\<close>

definition normalizeTrends :: "json \<Rightarrow> thrown + json" where
  "normalizeTrends parsed =
     (if parsed = JNull then
        Inl (TypeError ''Cannot read properties of null (reading 'trends')'')
      else
        (case getProp parsed ''trends'' of
           Some (JArr trends) \<Rightarrow>
             if trends \<noteq> [] then Inr (JArr trends) else trendsFallback parsed
         | _ \<Rightarrow> trendsFallback parsed))"

section \<open>Prompt templates (\<open>constants.ts\<close>)\<close>

text \<open>
  Each template literal is written line by line; an interpolation is the concatenation of
  the interpolated string. \<open>Platform\<close> is a string enumeration whose declaration is not part
  of the sources at hand; the functions below only interpolate its value and compare it with
  the literal \<open>Twitter (X)\<close>, so a platform is the string it carries.
\<close>

definition SYSTEM_INSTRUCTION :: string where
  "SYSTEM_INSTRUCTION =
     ''\<newline>'' @
     ''You are SocialSEO AI, the world's most advanced Social Media Algorithm Architect & Behavioral Psychologist (Identity: v.Andromeda Update).\<newline>'' @
     ''Your Mission: Ingest multi-modal content to generate scientifically optimized viral metadata.\<newline>'' @
     ''Standard: Zero hallucination. Maximum algorithmic relevance. Deep psychological adherence.\<newline>'' @
     ''\<newline>'' @
     ''THE HOOK LIBRARY (Strict Definitions):\<newline>'' @
     ''1. Intriguing Questions: Questions that make the audience reflect on their own experiences.\<newline>'' @
     ''2. Bold/Startling Statements: Unexpected claims or strong stances.\<newline>'' @
     ''3. Compelling Visuals: First-frame dominance using bold text overlay or surprising visual action.\<newline>'' @
     ''4. Storytelling Snippets: Starting in media res.\<newline>'' @
     ''5. Urgency/Scarcity: Creating FOMO.\<newline>'' @
     ''6. Problem/Solution: Direct addressing of pain points.\<newline>'' @
     ''7. Authority: Leveraging expertise.\<newline>'' @
     ''\<newline>'' @
     ''PLATFORM ARCHITECTURE:\<newline>'' @
     ''- Instagram: Reels (Loopable, Keyword-rich hook) / Carousels (Slide structure).\<newline>'' @
     ''- TikTok: Hyper-casual, slang-heavy, SEO keywords in first 3s.\<newline>'' @
     ''- YouTube: Shorts (<50 chars title) / Long-form (CTR title, Chapters).\<newline>'' @
     ''- LinkedIn: Bro-etry formatting, professional but vulnerable.\<newline>'' @
     ''- Twitter (X): Focus on Threads (Hook tweet -> Body tweets). Tone: Intellectual, contrarian, or news-focused. Strict character limits per tweet. Use highly specific 'Trending Topics'.\<newline>'' @
     ''- Facebook: Focus on Community & Storytelling. Tone: Warmer, slightly longer form, optimized for shares in Groups. Visuals: 'Meme-style' images or 'Text-on-background' posts.\<newline>'' @
     ''\<newline>'' @
     ''BRAND GUARD:\<newline>'' @
     ''If brand guidelines are provided, treat them as immutable laws. Never use forbidden words. Match tone exactly.\<newline>'' @
     ''\<newline>'' @
     ''OUTPUT FORMAT:\<newline>'' @
     ''You must return a raw JSON object based on the requested schema. Do not include markdown formatting like ```json.\<newline>''"

text \<open>The inner template literal of \<open>TREND_HUNTER_INSTRUCTION\<close>.\<close>

definition TWITTER_STEP_1B :: string where
  "TWITTER_STEP_1B =
     ''STEP 1b: Specifically SEARCH for \"Trending topics on Twitter today\" and \"Viral discussions on X\".''"

text \<open>The parameter \<open>platform\<close> is optional in the source: \<open>None\<close> is \<open>undefined\<close>.\<close>

definition TREND_HUNTER_INSTRUCTION :: "string \<Rightarrow> string option \<Rightarrow> string" where
  "TREND_HUNTER_INSTRUCTION currentDate platform =
     ''\<newline>'' @
     ''**LIVE TREND MODE ENABLED**\<newline>'' @
     ''STEP 1: You have access to Google Search. Before analyzing the video, SEARCH for \"Current viral trends '' @
     currentDate @
     ''\" and \"Trending audio for [Niche] on Instagram/TikTok\".\<newline>'' @
     (if platform = Some ''Twitter (X)'' then TWITTER_STEP_1B else []) @
     ''\<newline>'' @
     ''STEP 2: Use this live data to suggest a specific trending audio or challenge format that fits the user's video.\<newline>'' @
     ''STEP 3: Mention the trend name in the reasoning section (specifically in the 'trendDetected' field).\<newline>''"

definition BRAND_GUARD_INSTRUCTION :: "string \<Rightarrow> string" where
  "BRAND_GUARD_INSTRUCTION brandText =
     ''\<newline>'' @
     ''**BRAND GUARD ACTIVE**\<newline>'' @
     ''The user has provided strict Brand Guidelines. You MUST adhere to the following rules:\<newline>'' @
     ''\"'' @
     brandText @
     ''\"\<newline>'' @
     ''- If the generated content violates these rules, the analysis is a failure.\<newline>'' @
     ''- Adapt all specific stylistic choices to match this brand voice.\<newline>''"

definition MODE_PROMPTS_GENERATION :: "string \<Rightarrow> string \<Rightarrow> string \<Rightarrow> string \<Rightarrow> string" where
  "MODE_PROMPTS_GENERATION platform goal style targeting =
     ''\<newline>'' @
     ''    MODE A: GENERATION (The Creator).\<newline>'' @
     ''    Target Platform: '' @
     platform @
     ''.\<newline>'' @
     ''    User Goal: '' @
     goal @
     ''.\<newline>'' @
     ''    Desired Style: '' @
     style @
     ''.\<newline>'' @
     ''    '' @
     targeting @
     ''\<newline>'' @
     ''    \<newline>'' @
     ''    Analyze the provided input (Image/Video). \<newline>'' @
     ''    Identify the visual hook, select a viral style, write the caption, and generate SEO.\<newline>'' @
     ''    \<newline>'' @
     ''    If Platform is Twitter (X): Structure the 'caption' as a Thread (Tweet 1 [Hook] \<newline>'' @
     ''\<newline>'' @
     '' Tweet 2... etc).\<newline>'' @
     ''    If Platform is Facebook: Optimize for 'Shareability' and community discussion.\<newline>'' @
     ''    \<newline>'' @
     ''    Return a JSON object matching the AnalysisResult interface.\<newline>'' @
     ''  ''"

definition MODE_PROMPTS_REFINE :: "string \<Rightarrow> string \<Rightarrow> string \<Rightarrow> string" where
  "MODE_PROMPTS_REFINE originalText keywords targeting =
     ''\<newline>'' @
     ''    MODE B: REFINE DRAFT (The Editor).\<newline>'' @
     ''    Context/Keywords: '' @
     keywords @
     ''.\<newline>'' @
     ''    Original Draft: \"'' @
     originalText @
     ''\".\<newline>'' @
     ''    '' @
     targeting @
     ''\<newline>'' @
     ''    \<newline>'' @
     ''    Action: Semantic Weaving. Insert high-volume keywords naturally without disrupting narrative flow.\<newline>'' @
     ''    Maintain original meaning 100%. Polish grammar. Enhance readability score.\<newline>'' @
     ''    Return a JSON object where the 'strategy.caption' is the refined text, and fill other fields based on analysis of the text.\<newline>'' @
     ''  ''"

text \<open>Interpolating a number: its decimal digits (the number is an array length).\<close>

function numberToString :: "nat \<Rightarrow> string" where
  "numberToString n =
     (if n < 10 then [''0123456789'' ! n]
      else numberToString (n div 10) @ [''0123456789'' ! (n mod 10)])"
  by pat_completeness auto
termination
  by (relation "measure (\<lambda>n. n)") auto

definition MODE_PROMPTS_COMPETITOR_SPY :: "nat \<Rightarrow> string \<Rightarrow> string" where
  "MODE_PROMPTS_COMPETITOR_SPY count targeting =
     ''\<newline>'' @
     ''    MODE C: COMPETITOR SPY (The Reverse Engineer).\<newline>'' @
     ''    Analyzing '' @
     numberToString count @
     '' inputs as a \"Data Set\".\<newline>'' @
     ''    '' @
     targeting @
     ''\<newline>'' @
     ''    Do NOT analyze individually. Look for patterns.\<newline>'' @
     ''    Deconstruct the \"Viral DNA\": Pacing, Color Psychology, Hook ID.\<newline>'' @
     ''    \<newline>'' @
     ''    Return a JSON object. \<newline>'' @
     ''    - In 'visualAudit.summary', describe the common pattern found across all inputs.\<newline>'' @
     ''    - In 'strategy.caption', provide a fill-in-the-blank Viral Template tailored to the target audience.\<newline>'' @
     ''    - In 'competitorInsights', fill the object with 'visualTheme', 'ctaStrategy', and 'formula'.\<newline>'' @
     ''  ''"

definition MODE_PROMPTS_TREND_HUNTER :: "string \<Rightarrow> string \<Rightarrow> string" where
  "MODE_PROMPTS_TREND_HUNTER niche currentDate =
     ''\<newline>'' @
     ''    MODE: TREND HUNTER.\<newline>'' @
     ''    Niche: '' @
     niche @
     ''.\<newline>'' @
     ''    Date: '' @
     currentDate @
     ''.\<newline>'' @
     ''    \<newline>'' @
     ''    STEP 1: Search Google Trends, Twitter Trending, and TikTok Creative Center for the absolute latest news and trends in the '' @
     niche @
     '' niche RIGHT NOW.\<newline>'' @
     ''    STEP 2: Select 5 specific, high-potential content ideas.\<newline>'' @
     ''    \<newline>'' @
     ''    Return a JSON object containing an array called \"trends\".\<newline>'' @
     ''    Structure:\<newline>'' @
     ''    {\<newline>'' @
     ''      \"trends\": [\<newline>'' @
     ''        {\<newline>'' @
     ''          \"headline\": \"Trend Name\",\<newline>'' @
     ''          \"whyItsHot\": \"1 sentence explanation of why it is viral now.\",\<newline>'' @
     ''          \"contentIdea\": \"Specific instruction on how to apply this to the niche.\"\<newline>'' @
     ''        },\<newline>'' @
     ''        ... (5 items)\<newline>'' @
     ''      ]\<newline>'' @
     ''    }\<newline>'' @
     ''  ''"

section \<open>Request configuration and prompt composition (\<open>analyzeContent\<close>, steps 1 and 3)\<close>

datatype AppMode = GENERATION | REFINE | COMPETITOR_SPY | TREND_HUNTER

text \<open>
  The \<open>config\<close> parameter of \<open>analyzeContent\<close>: every field is optional, \<open>None\<close> is
  \<open>undefined\<close>. The component state of \<open>App.tsx\<close> (\<open>ConfigState\<close>) is passed as this
  parameter with every field defined.
\<close>

record config =
  goal :: "string option"
  style :: "string option"
  "keywords" :: "string option"
  originalText :: "string option"
  geography :: "string option"
  targetAudience :: "string option"
  targetLanguage :: "string option"
  demographics :: "string option"
  enableLiveTrends :: "bool option"
  brandGuidelines :: "string option"
  niche :: "string option"

text \<open>Truthiness of an optional string and of an optional boolean; \<open>s || d\<close>.\<close>

definition truthyStr :: "string option \<Rightarrow> bool" where
  "truthyStr v = (case v of None \<Rightarrow> False | Some s \<Rightarrow> s \<noteq> [])"

definition truthyBool :: "bool option \<Rightarrow> bool" where
  "truthyBool v = (case v of None \<Rightarrow> False | Some b \<Rightarrow> b)"

definition strOr :: "string option \<Rightarrow> string \<Rightarrow> string" where
  "strOr v d = (case v of None \<Rightarrow> d | Some s \<Rightarrow> if s \<noteq> [] then s else d)"

text \<open>\<open>x ? `Label: ${x}` : ''\<close> for an optional string \<open>x\<close>.\<close>

definition labelled :: "string \<Rightarrow> string option \<Rightarrow> string" where
  "labelled label v = (case v of None \<Rightarrow> [] | Some s \<Rightarrow> if s \<noteq> [] then label @ s else [])"

text \<open>\<open>Array.prototype.join\<close> with a separator.\<close>

fun join :: "string \<Rightarrow> string list \<Rightarrow> string" where
  "join sep [] = []"
| "join sep [x] = x"
| "join sep (x # y # ys) = x @ sep @ join sep (y # ys)"

text \<open>Lines 101 to 106; \<open>filter(Boolean)\<close> keeps the non-empty strings.\<close>

definition targetingBlock :: "config \<Rightarrow> string" where
  "targetingBlock config =
     join ''\<newline>''
       (filter (\<lambda>s. s \<noteq> [])
          [labelled ''Target Geography: '' (geography config),
           labelled ''Target Audience: '' (targetAudience config),
           labelled ''Target Language: '' (targetLanguage config),
           labelled ''Target Demographics: '' (demographics config)])"

definition JSON_REMINDER :: string where
  "JSON_REMINDER =
     ''IMPORTANT: You MUST return a valid JSON object matching the AnalysisResult structure. Do not include markdown formatting.\<newline>\<newline>''"

text \<open>
  Step 1 (lines 100 to 136). \<open>currentDate\<close> is the month and year printed by the runtime's
  \<open>toLocaleString\<close>; \<open>fileCount\<close> is \<open>files.length\<close>.
\<close>

definition composePrompt ::
  "string \<Rightarrow> nat \<Rightarrow> AppMode \<Rightarrow> string \<Rightarrow> config \<Rightarrow> thrown + string" where
  "composePrompt currentDate fileCount mode platform config =
     (let targeting = targetingBlock config in
      if mode = TREND_HUNTER then
        (case niche config of
           None \<Rightarrow> Inl (Error ''Niche is required for Trend Hunter.'')
         | Some n \<Rightarrow>
             if n = [] then Inl (Error ''Niche is required for Trend Hunter.'')
             else Inr (MODE_PROMPTS_TREND_HUNTER n currentDate))
      else
        Inr ((if truthyBool (enableLiveTrends config)
              then TREND_HUNTER_INSTRUCTION currentDate (Some platform) @ ''\<newline>\<newline>''
              else [])
           @ (if truthyStr (brandGuidelines config)
              then BRAND_GUARD_INSTRUCTION (strOr (brandGuidelines config) []) @ ''\<newline>\<newline>''
              else [])
           @ JSON_REMINDER
           @ (case mode of
                GENERATION \<Rightarrow>
                  MODE_PROMPTS_GENERATION platform (strOr (goal config) ''Viral Growth'')
                    (strOr (style config) ''Authentic'') targeting
              | REFINE \<Rightarrow>
                  MODE_PROMPTS_REFINE (strOr (originalText config) [])
                    (strOr (keywords config) []) targeting
              | COMPETITOR_SPY \<Rightarrow> MODE_PROMPTS_COMPETITOR_SPY fileCount targeting
              | TREND_HUNTER \<Rightarrow> [])))"

text \<open>The response schema of lines 171 to 226, with the \<open>Type\<close> tags of the SDK.\<close>

datatype schema =
    Type_STRING
  | Type_NUMBER
  | Type_ARRAY schema
  | Type_OBJECT "(string \<times> schema) list" "string list option"

definition ANALYSIS_RESULT_SCHEMA :: schema where
  "ANALYSIS_RESULT_SCHEMA =
     Type_OBJECT
       [(''visualAudit'',
           Type_OBJECT
             [(''summary'', Type_STRING),
              (''hookIdentified'', Type_STRING),
              (''psychologyCheck'', Type_STRING)]
             (Some [''summary'', ''hookIdentified'', ''psychologyCheck''])),
        (''strategy'',
           Type_OBJECT
             [(''headline'', Type_STRING),
              (''caption'', Type_STRING),
              (''cta'', Type_STRING)]
             (Some [''headline'', ''caption'', ''cta''])),
        (''seo'',
           Type_OBJECT
             [(''hiddenKeywords'', Type_ARRAY Type_STRING),
              (''hashtags'',
                 Type_OBJECT
                   [(''broad'', Type_ARRAY Type_STRING),
                    (''niche'', Type_ARRAY Type_STRING),
                    (''specific'', Type_ARRAY Type_STRING)]
                   None)]
             None),
        (''virality'',
           Type_OBJECT
             [(''score'', Type_NUMBER),
              (''gapAnalysis'', Type_STRING),
              (''trendDetected'', Type_STRING),
              (''vibe'', Type_STRING)]
             (Some [''score'', ''gapAnalysis''])),
        (''competitorInsights'',
           Type_OBJECT
             [(''visualTheme'', Type_STRING),
              (''ctaStrategy'', Type_STRING),
              (''formula'', Type_STRING)]
             None)]
       (Some [''visualAudit'', ''strategy'', ''seo'', ''virality''])"

datatype tool = googleSearch

text \<open>
  \<open>generateConfig\<close>: a property that was never assigned is \<open>None\<close>.
\<close>

record generateConfig =
  systemInstruction :: string
  thinkingBudget :: nat
  tools :: "tool list option"
  responseMimeType :: "string option"
  responseSchema :: "schema option"

definition useSearch :: "AppMode \<Rightarrow> config \<Rightarrow> bool" where
  "useSearch mode config = (mode = TREND_HUNTER \<or> truthyBool (enableLiveTrends config))"

text \<open>Step 3 (lines 155 to 227).\<close>

definition configureRequest :: "AppMode \<Rightarrow> config \<Rightarrow> generateConfig" where
  "configureRequest mode config =
     (let generateConfig =
        \<lparr>systemInstruction = SYSTEM_INSTRUCTION, thinkingBudget = 1024,
         tools = None, responseMimeType = None, responseSchema = None\<rparr>
      in if useSearch mode config then generateConfig\<lparr>tools := Some [googleSearch]\<rparr>
         else generateConfig\<lparr>responseMimeType := Some ''application/json'',
                responseSchema := Some ANALYSIS_RESULT_SCHEMA\<rparr>)"

section \<open>Encoding the files (\<open>fileToPart\<close>, \<open>uploadLargeFile\<close>, step 2)\<close>

text \<open>A browser \<open>File\<close>: its name, its media type and its size in bytes.\<close>

record File =
  file_name :: string
  file_type :: string
  file_size :: nat

text \<open>What \<open>ai.files.get\<close> reports about an uploaded file.\<close>

record FileInfo =
  state :: string
  uri :: string
  mimeType :: string

datatype part =
    Text string
  | InlineData string string
  | FileData string string

fun isInlineData :: "part \<Rightarrow> bool" where
  "isInlineData (InlineData d m) = True"
| "isInlineData p = False"

fun isFileData :: "part \<Rightarrow> bool" where
  "isFileData (FileData u m) = True"
| "isFileData p = False"

definition MODEL_NAME :: string where
  "MODEL_NAME = ''gemini-2.5-flash''"

record request =
  req_model :: string
  req_contents :: "part list"
  req_config :: generateConfig

text \<open>
  Everything outside the program that \<open>analyzeContent\<close> consults: the clock, the file
  service of the SDK, the \<open>FileReader\<close>, the generation call and \<open>JSON.parse\<close>. A call either
  throws or returns. The status of an uploaded file changes with time, so the answers of
  \<open>ai.files.get\<close> for one name are indexed by the number of the query, starting at 0.
  \<open>models_generateContent\<close> returns \<open>response.text\<close>, which may be \<open>undefined\<close>.
  \<open>compare_gtZero\<close> is the runtime's comparison \<open>v > 0\<close> for a string, an array or an
  object \<open>v\<close>: it converts \<open>v\<close> to a number first, which may throw.
\<close>

record env =
  date_toLocaleString :: string
  files_upload :: "File \<Rightarrow> thrown + string"
  files_get :: "string \<Rightarrow> nat \<Rightarrow> thrown + FileInfo"
  reader_readAsDataURL :: "File \<Rightarrow> thrown + string"
  models_generateContent :: "request \<Rightarrow> thrown + string option"
  JSON_parse :: "string \<Rightarrow> thrown + json"
  compare_gtZero :: "json \<Rightarrow> thrown + bool"

text \<open>\<open>result.split(',')[1]\<close> of a string that contains a comma.\<close>

definition splitComma1 :: "string \<Rightarrow> string" where
  "splitComma1 s =
     takeWhile (\<lambda>c. c \<noteq> CHR '','') (drop 1 (dropWhile (\<lambda>c. c \<noteq> CHR '','') s))"

definition fileToPart :: "env \<Rightarrow> File \<Rightarrow> thrown + part" where
  "fileToPart ai file =
     (case reader_readAsDataURL ai file of
        Inl e \<Rightarrow> Inl e
      | Inr result \<Rightarrow>
          Inr (InlineData (if CHR '','' \<in> set result then splitComma1 result else result)
                 (file_type file)))"

text \<open>
  The polling loop of lines 40 to 45. \<open>get\<close> answers the queries for the uploaded name;
  the query made when the counter is \<open>attempts\<close> is query number \<open>attempts + 1\<close>, query 0
  being the one of line 37. The two-second wait has no counterpart here.
\<close>

function pollLoop :: "(nat \<Rightarrow> thrown + FileInfo) \<Rightarrow> FileInfo \<Rightarrow> nat \<Rightarrow> thrown + FileInfo" where
  "pollLoop get fileInfo attempts =
     (if state fileInfo = ''PROCESSING'' \<and> attempts < 30 then
        (case get (Suc attempts) of
           Inl e \<Rightarrow> Inl e
         | Inr fileInfo' \<Rightarrow> pollLoop get fileInfo' (Suc attempts))
      else Inr fileInfo)"
  by pat_completeness auto
termination
  by (relation "measure (\<lambda>(get, fileInfo, attempts). 30 - attempts)") auto

declare pollLoop.simps [simp del]

definition UPLOAD_FAILED_MESSAGE :: string where
  "UPLOAD_FAILED_MESSAGE = ''Failed to upload large file to Gemini. Please try a smaller file.''"

text \<open>The body of the \<open>try\<close> block of \<open>uploadLargeFile\<close> (lines 29 to 56).\<close>

definition uploadLargeFile_try :: "env \<Rightarrow> File \<Rightarrow> thrown + part" where
  "uploadLargeFile_try ai file =
     (case files_upload ai file of
        Inl e \<Rightarrow> Inl e
      | Inr name \<Rightarrow>
          (case files_get ai name 0 of
             Inl e \<Rightarrow> Inl e
           | Inr fileInfo0 \<Rightarrow>
               (case pollLoop (files_get ai name) fileInfo0 0 of
                  Inl e \<Rightarrow> Inl e
                | Inr fileInfo \<Rightarrow>
                    if state fileInfo = ''FAILED'' then
                      Inl (Error ''File processing failed on Gemini server.'')
                    else Inr (FileData (uri fileInfo) (mimeType fileInfo)))))"

text \<open>The \<open>catch\<close> of lines 57 to 60 replaces whatever was thrown.\<close>

definition uploadLargeFile :: "env \<Rightarrow> File \<Rightarrow> thrown + part" where
  "uploadLargeFile ai file =
     (case uploadLargeFile_try ai file of
        Inl error \<Rightarrow> Inl (Error UPLOAD_FAILED_MESSAGE)
      | Inr r \<Rightarrow> Inr r)"

definition FILE_SIZE_THRESHOLD :: nat where
  "FILE_SIZE_THRESHOLD = 20 * 1024 * 1024"

text \<open>The body of the loop of lines 144 to 152, and the loop; the first throw ends it.\<close>

definition encodeFile :: "env \<Rightarrow> File \<Rightarrow> thrown + part" where
  "encodeFile ai file =
     (if file_size file > FILE_SIZE_THRESHOLD then uploadLargeFile ai file
      else fileToPart ai file)"

fun encodeFiles :: "env \<Rightarrow> File list \<Rightarrow> thrown + part list" where
  "encodeFiles ai [] = Inr []"
| "encodeFiles ai (file # files) =
     (case encodeFile ai file of
        Inl e \<Rightarrow> Inl e
      | Inr part \<Rightarrow>
          (case encodeFiles ai files of
             Inl e \<Rightarrow> Inl e
           | Inr parts \<Rightarrow> Inr (part # parts)))"

text \<open>Step 2 (lines 138 to 153).\<close>

definition prepareParts :: "env \<Rightarrow> AppMode \<Rightarrow> string \<Rightarrow> File list \<Rightarrow> thrown + part list" where
  "prepareParts ai mode promptText files =
     (if mode \<noteq> TREND_HUNTER then
        (case encodeFiles ai files of
           Inl e \<Rightarrow> Inl e
         | Inr parts \<Rightarrow> Inr (Text promptText # parts))
      else Inr [Text promptText])"

section \<open>The call, the reply and the error mapping (\<open>analyzeContent\<close>, steps 5 and 6)\<close>

text \<open>Steps 1 to 3 together: the request handed to \<open>ai.models.generateContent\<close>.\<close>

definition buildRequest ::
  "env \<Rightarrow> File list \<Rightarrow> AppMode \<Rightarrow> string \<Rightarrow> config \<Rightarrow> string \<Rightarrow> thrown + request" where
  "buildRequest ai files mode platform config apiKey =
     (if apiKey = [] then Inl (Error ''API Key is missing.'')
      else
        (case composePrompt (date_toLocaleString ai) (length files) mode platform config of
           Inl e \<Rightarrow> Inl e
         | Inr promptText \<Rightarrow>
             (case prepareParts ai mode promptText files of
                Inl e \<Rightarrow> Inl e
              | Inr parts \<Rightarrow>
                  Inr \<lparr>req_model = MODEL_NAME, req_contents = parts,
                       req_config = configureRequest mode config\<rparr>)))"

text \<open>The inner \<open>try\<close> block (lines 234 to 264).\<close>

definition callAndNormalize_try :: "env \<Rightarrow> AppMode \<Rightarrow> request \<Rightarrow> thrown + json" where
  "callAndNormalize_try ai mode req =
     (case models_generateContent ai req of
        Inl e \<Rightarrow> Inl e
      | Inr resultText \<Rightarrow>
          (if \<not> truthyStr resultText then Inl (Error ''No response from AI'')
           else
             (case parseReply (JSON_parse ai) (strOr resultText []) of
                Inl e \<Rightarrow> Inl e
              | Inr parsed \<Rightarrow>
                  if mode = TREND_HUNTER then normalizeTrends parsed else Inr parsed)))"

text \<open>
  The inner \<open>catch\<close> (lines 265 to 270). The abort controller of line 230 is never handed to
  the call, so the timer of line 231 has no effect on it.
\<close>

definition callAndNormalize :: "env \<Rightarrow> AppMode \<Rightarrow> request \<Rightarrow> thrown + json" where
  "callAndNormalize ai mode req =
     (case callAndNormalize_try ai mode req of
        Inl timeoutError \<Rightarrow>
          if err_name timeoutError = Some ''AbortError'' then
            Inl (Error ''Request timed out. The API took too long to respond. Please try again with a smaller file or simpler request.'')
          else Inl timeoutError
      | Inr r \<Rightarrow> Inr r)"

text \<open>\<open>String.prototype.includes\<close>, and \<open>error.message?.includes(p)\<close>.\<close>

fun includesStr :: "string \<Rightarrow> string \<Rightarrow> bool" where
  "includesStr [] p = (p = [])"
| "includesStr (c # cs) p = (startsWith (c # cs) p \<or> includesStr cs p)"

definition messageIncludes :: "thrown \<Rightarrow> string \<Rightarrow> bool" where
  "messageIncludes error p = (case err_message error of None \<Rightarrow> False | Some m \<Rightarrow> includesStr m p)"

definition CONNECTION_FAILED_MESSAGE :: string where
  "CONNECTION_FAILED_MESSAGE =
     ''Connection Failed. Please check your API Key or Internet connection.''"

text \<open>The outer \<open>catch\<close> (lines 272 to 281); the console output is left out.\<close>

definition mapError :: "thrown \<Rightarrow> thrown" where
  "mapError error =
     (if messageIncludes error ''413'' \<or> messageIncludes error ''too large'' then
        Error ''The file is too large for the current connection. Please try a smaller file.''
      else if messageIncludes error ''timeout'' \<or> messageIncludes error ''timed out'' then
        Error ''Request timed out. Please check your internet connection and try again.''
      else Error CONNECTION_FAILED_MESSAGE)"

definition analyzeContent ::
  "env \<Rightarrow> File list \<Rightarrow> AppMode \<Rightarrow> string \<Rightarrow> config \<Rightarrow> string \<Rightarrow> thrown + json" where
  "analyzeContent ai files mode platform config apiKey =
     (case (case buildRequest ai files mode platform config apiKey of
              Inl e \<Rightarrow> Inl e
            | Inr req \<Rightarrow> callAndNormalize ai mode req) of
        Inl error \<Rightarrow> Inl (mapError error)
      | Inr r \<Rightarrow> Inr r)"

section \<open>Pre-flight validation (\<open>handleAnalyze\<close> in \<open>App.tsx\<close>)\<close>

record FileInput =
  "file" :: File
  preview :: string
  kind :: string

text \<open>The part of the component state that \<open>handleAnalyze\<close> reads and writes.\<close>

record AppState =
  st_apiKey :: string
  st_mode :: AppMode
  st_platform :: string
  st_files :: "FileInput list"
  st_config :: config
  st_isAnalyzing :: bool
  st_result :: "json option"
  st_trendResults :: "json option"
  st_error :: "string option"

definition MAX_TOTAL_SIZE :: nat where
  "MAX_TOTAL_SIZE = 100 * 1024 * 1024"

text \<open>\<open>filesToAnalyze.reduce((sum, f) => sum + f.size, 0)\<close>.\<close>

definition totalSize :: "File list \<Rightarrow> nat" where
  "totalSize filesToAnalyze = foldl (\<lambda>sum f. sum + file_size f) 0 filesToAnalyze"

definition SIZE_ERROR_MESSAGE :: string where
  "SIZE_ERROR_MESSAGE = ''Total file size exceeds 100MB. Please upload smaller files.''"

text \<open>
  \<open>trends && trends.length > 0\<close> (line 192) for the value the call returned. The \<open>length\<close>
  of an array or a string is the number of its elements or code units, that of an object is
  its own entry of that name, and a number or a boolean has none. The comparison with 0 is
  decided here for \<open>undefined\<close>, \<open>null\<close>, a boolean and a number; for a string, an array
  or an object it is the environment's \<open>compare_gtZero\<close>. A throw ends in the \<open>catch\<close> of
  the handler.
\<close>

definition lengthOf :: "json \<Rightarrow> json option" where
  "lengthOf v =
     (case v of
        JArr xs \<Rightarrow> Some (JNum (of_nat (length xs)))
      | JStr s \<Rightarrow> Some (JNum (of_nat (length s)))
      | JObj kvs \<Rightarrow> map_of kvs ''length''
      | _ \<Rightarrow> None)"

definition greaterThanZero :: "(json \<Rightarrow> thrown + bool) \<Rightarrow> json option \<Rightarrow> thrown + bool" where
  "greaterThanZero convert v =
     (case v of
        None \<Rightarrow> Inr False
      | Some JNull \<Rightarrow> Inr False
      | Some (JBool b) \<Rightarrow> Inr b
      | Some (JNum n) \<Rightarrow> Inr (0 < n)
      | Some w \<Rightarrow> convert w)"

definition hasElements :: "env \<Rightarrow> json \<Rightarrow> thrown + bool" where
  "hasElements ai data =
     (if truthy data then greaterThanZero (compare_gtZero ai) (lengthOf data) else Inr False)"

text \<open>
  The four checks of lines 153 to 169: the message of the first one that fails, \<open>None\<close>
  when all pass. A failing check sets the error and returns; nothing else is touched.
\<close>

definition modeValidation :: "AppMode \<Rightarrow> FileInput list \<Rightarrow> config \<Rightarrow> string option" where
  "modeValidation mode files config =
     (if mode = GENERATION \<and> length files = 0 then
        Some ''Please upload content to analyze.''
      else if mode = REFINE \<and> \<not> truthyStr (originalText config) then
        Some ''Please enter text to refine.''
      else if mode = COMPETITOR_SPY \<and> length files = 0 then
        Some ''Please upload competitor content to analyze.''
      else if mode = TREND_HUNTER \<and> \<not> truthyStr (niche config) then
        Some ''Please enter a niche to hunt trends for.''
      else None)"

text \<open>The \<open>catch\<close> and \<open>finally\<close> blocks of lines 200 to 206.\<close>

definition analysisFailed :: "AppState \<Rightarrow> thrown \<Rightarrow> AppState" where
  "analysisFailed s1 err =
     s1\<lparr>st_error := Some (strOr (err_message err) ''An unexpected error occurred.''),
        st_isAnalyzing := False\<rparr>"

text \<open>
  Lines 188 to 206: what the handler does with the outcome of the awaited call, \<open>s1\<close>
  being the state as reset by lines 171 to 174.
\<close>

definition afterAnalyze :: "env \<Rightarrow> AppState \<Rightarrow> thrown + json \<Rightarrow> AppState" where
  "afterAnalyze ai s1 outcome =
     (case outcome of
        Inl err \<Rightarrow> analysisFailed s1 err
      | Inr data \<Rightarrow>
          if st_mode s1 = TREND_HUNTER then
            (case hasElements ai data of
               Inl err \<Rightarrow> analysisFailed s1 err
             | Inr nonEmpty \<Rightarrow>
                 if nonEmpty then
                   s1\<lparr>st_trendResults := Some data, st_isAnalyzing := False\<rparr>
                 else
                   s1\<lparr>st_error :=
                        Some ''No trends found for your niche. Try a different search term.'',
                      st_isAnalyzing := False\<rparr>)
          else s1\<lparr>st_result := Some data, st_isAnalyzing := False\<rparr>)"

definition resetForAnalysis :: "AppState \<Rightarrow> AppState" where
  "resetForAnalysis s =
     s\<lparr>st_isAnalyzing := True, st_error := None, st_result := None, st_trendResults := None\<rparr>"

text \<open>
  \<open>handleAnalyze\<close> (lines 152 to 207): the state after the handler has run to its end.
  The size check of lines 179 to 186 runs after the reset and before the call.
\<close>

definition handleAnalyze :: "env \<Rightarrow> AppState \<Rightarrow> AppState" where
  "handleAnalyze ai s =
     (case modeValidation (st_mode s) (st_files s) (st_config s) of
        Some msg \<Rightarrow> s\<lparr>st_error := Some msg\<rparr>
      | None \<Rightarrow>
          (let s1 = resetForAnalysis s;
               filesToAnalyze = map file (st_files s)
           in if totalSize filesToAnalyze > MAX_TOTAL_SIZE then
                s1\<lparr>st_error := Some SIZE_ERROR_MESSAGE, st_isAnalyzing := False\<rparr>
              else
                afterAnalyze ai s1
                  (analyzeContent ai filesToAnalyze (st_mode s) (st_platform s) (st_config s)
                     (st_apiKey s))))"

section \<open>Vocabulary of the properties\<close>

text \<open>
  The targeting block as the specification words it: one labelled line for each field that
  is a non-empty string, in the order geography, audience, language, demographics.
\<close>

definition labelledLine :: "string \<Rightarrow> string option \<Rightarrow> string list" where
  "labelledLine label v =
     (case v of None \<Rightarrow> [] | Some s \<Rightarrow> if s \<noteq> [] then [label @ s] else [])"

definition targetingLines :: "config \<Rightarrow> string list" where
  "targetingLines config =
     labelledLine ''Target Geography: '' (geography config)
     @ labelledLine ''Target Audience: '' (targetAudience config)
     @ labelledLine ''Target Language: '' (targetLanguage config)
     @ labelledLine ''Target Demographics: '' (demographics config)"

text \<open>The lines of a text: \<open>text.split('\n')\<close>.\<close>

fun splitLines :: "string \<Rightarrow> string list" where
  "splitLines [] = [[]]"
| "splitLines (c # cs) =
     (if c = CHR ''\<newline>'' then [] # splitLines cs
      else (case splitLines cs of [] \<Rightarrow> [[c]] | l # ls \<Rightarrow> (c # l) # ls))"

definition singleLine :: "string option \<Rightarrow> bool" where
  "singleLine v = (case v of None \<Rightarrow> True | Some s \<Rightarrow> CHR ''\<newline>'' \<notin> set s)"

text \<open>Whether the parsed reply carries a non-empty array under \<open>trends\<close>.\<close>

definition hasNonEmptyTrends :: "json \<Rightarrow> bool" where
  "hasNonEmptyTrends parsed =
     (case getProp parsed ''trends'' of Some (JArr ts) \<Rightarrow> ts \<noteq> [] | _ \<Rightarrow> False)"

section \<open>Example environments and inputs\<close>

text \<open>
  Concrete services, files and configurations at which the properties below are
  instantiated. \<open>plainConfig\<close> is the initial \<open>ConfigState\<close> of \<open>App.tsx\<close> (lines 66 to 78).
\<close>

definition activeInfo :: FileInfo where
  "activeInfo = \<lparr>state = ''ACTIVE'', uri = ''https://files.example/abc'', mimeType = ''video/mp4''\<rparr>"

definition processingInfo :: FileInfo where
  "processingInfo = \<lparr>state = ''PROCESSING'', uri = ''https://files.example/abc'', mimeType = ''video/mp4''\<rparr>"

text \<open>A service where every call succeeds and an uploaded file is active at once.\<close>

definition quietService :: env where
  "quietService =
     \<lparr>date_toLocaleString = ''November 2026'',
      files_upload = (\<lambda>f. Inr ''files/abc''),
      files_get = (\<lambda>name k. Inr activeInfo),
      reader_readAsDataURL = (\<lambda>f. Inr ''data:video/mp4;base64,AAAA''),
      models_generateContent = (\<lambda>req. Inr (Some ''{}'')),
      JSON_parse = (\<lambda>text. Inr (JObj [])),
      compare_gtZero = (\<lambda>v. Inr False)\<rparr>"

text \<open>A service whose file never leaves the processing state.\<close>

definition stuckService :: env where
  "stuckService = quietService\<lparr>files_get := (\<lambda>name k. Inr processingInfo)\<rparr>"

text \<open>A service whose upload call fails in the transport.\<close>

definition offlineService :: env where
  "offlineService =
     quietService\<lparr>files_upload := (\<lambda>f. Inl (Thrown (Some ''TypeError'') (Some ''Failed to fetch'')))\<rparr>"

text \<open>A service whose generation call answers with a given text that parses to a given value.\<close>

definition replyService :: "string \<Rightarrow> json \<Rightarrow> env" where
  "replyService reply parsed =
     quietService\<lparr>models_generateContent := (\<lambda>req. Inr (Some reply)),
                  JSON_parse := (\<lambda>t. Inr parsed)\<rparr>"

definition videoOfSize :: "nat \<Rightarrow> File" where
  "videoOfSize n = \<lparr>file_name = ''clip.mp4'', file_type = ''video/mp4'', file_size = n\<rparr>"

definition plainConfig :: config where
  "plainConfig =
     \<lparr>goal = Some ''Viral Growth'', style = Some ''Authentic'', keywords = Some [],
      originalText = Some [], geography = Some [], targetAudience = Some [],
      targetLanguage = Some [], demographics = Some [], enableLiveTrends = Some False,
      brandGuidelines = Some [], niche = Some []\<rparr>"

text \<open>
  The initial component state of \<open>App.tsx\<close> (Generation mode, Instagram, \<open>plainConfig\<close>)
  with a key and two selected videos of the given sizes.
\<close>

definition generationState :: "nat \<Rightarrow> nat \<Rightarrow> AppState" where
  "generationState a b =
     \<lparr>st_apiKey = ''AIza'', st_mode = GENERATION, st_platform = ''Instagram'',
      st_files =
        [\<lparr>file = videoOfSize a, preview = ''blob:1'', kind = ''video''\<rparr>,
         \<lparr>file = videoOfSize b, preview = ''blob:2'', kind = ''video''\<rparr>],
      st_config = plainConfig, st_isAnalyzing = False, st_result = None,
      st_trendResults = None, st_error = None\<rparr>"

section \<open>Properties\<close>

subsection \<open>Response cleanup\<close>

lemma trimStart_ws_append:
  "list_all isWhiteSpace w \<Longrightarrow> trimStart (w @ s) = trimStart s"
  by (simp add: trimStart_def list_all_iff dropWhile_append)

lemma trimEnd_append_ws:
  "list_all isWhiteSpace w \<Longrightarrow> trimEnd (s @ w) = trimEnd s"
  by (simp add: trimEnd_def list_all_iff dropWhile_append)

lemma trimStart_nonempty_append:
  "trimStart s \<noteq> [] \<Longrightarrow> trimStart (s @ t) = trimStart s @ t"
  unfolding trimStart_def
  by (induction s) auto

lemma trimStart_hd: "trimStart s = c # cs \<Longrightarrow> \<not> isWhiteSpace c"
  unfolding trimStart_def by (metis hd_dropWhile list.sel(1) list.distinct(1))

lemma trimStart_noop: "\<not> isWhiteSpace c \<Longrightarrow> trimStart (c # cs) = c # cs"
  by (simp add: trimStart_def)

lemma trimEnd_noop: "\<not> isWhiteSpace c \<Longrightarrow> trimEnd (s @ [c]) = s @ [c]"
  by (simp add: trimEnd_def)

lemma trim_fenced: "\<not> isWhiteSpace c \<Longrightarrow> \<not> isWhiteSpace d \<Longrightarrow> trim (c # s @ [d]) = c # s @ [d]"
  using trimEnd_noop[of d "c # s"] by (simp add: trim_def trimStart_noop)

lemma replaceTrailingFence_append:
  "replaceTrailingFence (s @ ''```'') = trimEnd s"
  by (simp add: replaceTrailingFence_def endsWith_def)

lemma strip_inner:
  assumes "list_all isWhiteSpace w1" "list_all isWhiteSpace w2" "trimStart x \<noteq> []"
  shows "replaceTrailingFence (trimStart (w1 @ x @ w2 @ ''```'')) = trim x"
proof -
  have "trimStart (w1 @ x @ w2 @ ''```'') = trimStart x @ w2 @ ''```''"
    using assms by (simp add: trimStart_ws_append trimStart_nonempty_append)
  then have "replaceTrailingFence (trimStart (w1 @ x @ w2 @ ''```'')) = trimEnd (trimStart x @ w2)"
    using replaceTrailingFence_append[of "trimStart x @ w2"] by simp
  then show ?thesis using assms by (simp add: trimEnd_append_ws trim_def)
qed

lemma strip_inner_blank:
  assumes "list_all isWhiteSpace w1" "list_all isWhiteSpace w2" "trimStart x = []"
  shows "replaceTrailingFence (trimStart (w1 @ x @ w2 @ ''```'')) = trim x"
proof -
  have x: "list_all isWhiteSpace x"
    using assms(3) by (simp add: trimStart_def list_all_iff dropWhile_eq_Nil_conv)
  have "trimStart (w1 @ x @ w2 @ ''```'') = trimStart ''```''"
    using assms x by (simp add: trimStart_ws_append)
  also have "\<dots> = ''```''"
    by (simp add: trimStart_def isWhiteSpace_def)
  finally have "replaceTrailingFence (trimStart (w1 @ x @ w2 @ ''```'')) = trimEnd []"
    using replaceTrailingFence_append[of "[]"] by simp
  then show ?thesis using assms(3) by (simp add: trim_def)
qed

lemma strip_fence_body:
  assumes "list_all isWhiteSpace w1" "list_all isWhiteSpace w2"
  shows "replaceTrailingFence (trimStart (w1 @ x @ w2 @ ''```'')) = trim x"
  using assms strip_inner strip_inner_blank by (cases "trimStart x = []") blast+

lemma trim_json_fence:
  "trim (''```json'' @ s @ ''```'') = ''```json'' @ s @ ''```''"
  using trim_fenced[of "CHR 0x60" "CHR 0x60" "''``json'' @ s @ ''``''"]
  by (simp add: isWhiteSpace_def)

lemma trim_plain_fence:
  "trim (''```'' @ s @ ''```'') = ''```'' @ s @ ''```''"
  using trim_fenced[of "CHR 0x60" "CHR 0x60" "''``'' @ s @ ''``''"]
  by (simp add: isWhiteSpace_def)

lemma cleanJson_json_fence:
  assumes "list_all isWhiteSpace w1" "list_all isWhiteSpace w2"
  shows "cleanJson (''```json'' @ w1 @ x @ w2 @ ''```'') = trim x"
proof -
  have t: "trim (''```json'' @ (w1 @ x @ w2) @ ''```'') = ''```json'' @ (w1 @ x @ w2) @ ''```''"
    by (rule trim_json_fence)
  have "cleanJson (''```json'' @ (w1 @ x @ w2) @ ''```'')
      = replaceTrailingFence (trimStart (w1 @ x @ w2 @ ''```''))"
    unfolding cleanJson_def t by (simp add: startsWith_def replaceLeading_def)
  then show ?thesis using strip_fence_body[OF assms] by simp
qed

lemma cleanJson_plain_fence:
  assumes "list_all isWhiteSpace w1" "list_all isWhiteSpace w2"
    and nj: "\<not> startsWith (w1 @ x @ w2 @ ''```'') ''json''"
  shows "cleanJson (''```'' @ w1 @ x @ w2 @ ''```'') = trim x"
proof -
  have t: "trim (''```'' @ (w1 @ x @ w2) @ ''```'') = ''```'' @ (w1 @ x @ w2) @ ''```''"
    by (rule trim_plain_fence)
  have n: "\<not> startsWith (''```'' @ (w1 @ x @ w2) @ ''```'') ''```json''"
    using nj by (simp add: startsWith_def)
  have "cleanJson (''```'' @ (w1 @ x @ w2) @ ''```'')
      = replaceTrailingFence (trimStart (w1 @ x @ w2 @ ''```''))"
    unfolding cleanJson_def t using n by (simp add: startsWith_def replaceLeading_def)
  then show ?thesis using strip_fence_body[OF assms(1,2)] by simp
qed

lemma beginsLikeJson_trim:
  assumes "beginsLikeJson x"
  shows "\<exists>c cs. trim x = c # cs \<and> c \<in> set ''{[\"-0123456789tfn''"
proof -
  from assms obtain c cs where s: "trimStart x = c # cs" and c: "c \<in> set ''{[\"-0123456789tfn''"
    by (auto simp: beginsLikeJson_def split: list.splits)
  have nw: "\<not> isWhiteSpace c" using s by (rule trimStart_hd)
  have "trimEnd (c # cs) = c # trimEnd cs"
    using nw by (simp add: trimEnd_def dropWhile_append dropWhile_eq_Nil_conv)
  then show ?thesis using s c by (auto simp: trim_def)
qed

lemma cleanJson_bare:
  assumes "beginsLikeJson x"
  shows "cleanJson x = trim x"
proof -
  from beginsLikeJson_trim[OF assms] obtain c cs
    where t: "trim x = c # cs" and c: "c \<in> set ''{[\"-0123456789tfn''" by blast
  have "c \<noteq> CHR 0x60" using c by auto
  then show ?thesis by (simp add: cleanJson_def t startsWith_def)
qed

lemma beginsLikeJson_not_json_tag:
  assumes "list_all isWhiteSpace w1" "beginsLikeJson x"
  shows "\<not> startsWith (w1 @ x @ s) ''json''"
proof (cases w1)
  case Nil
  from assms(2) obtain c cs where s: "trimStart x = c # cs" and c: "c \<in> set ''{[\"-0123456789tfn''"
    by (auto simp: beginsLikeJson_def split: list.splits)
  then obtain d ds where x: "x = d # ds" by (cases x) (auto simp: trimStart_def)
  have "d \<noteq> CHR ''j''"
  proof
    assume "d = CHR ''j''"
    then have "trimStart x = x" using x by (simp add: trimStart_def isWhiteSpace_def)
    then show False using s c x \<open>d = CHR ''j''\<close> by auto
  qed
  then show ?thesis using Nil x by (simp add: startsWith_def)
next
  case (Cons a as)
  then have "isWhiteSpace a" using assms(1) by simp
  then have "a \<noteq> CHR ''j''" by (auto simp: isWhiteSpace_def)
  then show ?thesis using Cons by (simp add: startsWith_def)
qed

text \<open>Of two nested fences only the outer one is removed.\<close>

lemma cleanJson_strips_one_fence:
  assumes "list_all isWhiteSpace w1" "list_all isWhiteSpace w2"
  shows "cleanJson (''```json'' @ w1 @ (''```json'' @ y @ ''```'') @ w2 @ ''```'')
           = ''```json'' @ y @ ''```''"
  using cleanJson_json_fence[OF assms, of "''```json'' @ y @ ''```''"] trim_json_fence[of y]
  by simp

text \<open>
  Claim C7. A reply that wraps a text \<open>x\<close> in one markdown fence, with or without the
  \<open>json\<close> tag and with any white space between the fence markers and \<open>x\<close>, is cleaned to
  \<open>x\<close> without its surrounding white space, which is also what cleaning the bare \<open>x\<close>
  gives when \<open>x\<close> starts like a JSON value. The parser therefore receives the same text in
  both cases and returns the same value; when \<open>x\<close> has no white space around it, that
  text is \<open>x\<close> itself. Only one fence is removed: the equation holds for every \<open>x\<close>,
  also one that is itself fenced.
\<close>

theorem cleanJson_fence_roundtrip:
  assumes "list_all isWhiteSpace w1" and "list_all isWhiteSpace w2" and "beginsLikeJson x"
  shows "cleanJson (''```json'' @ w1 @ x @ w2 @ ''```'') = trim x
       \<and> cleanJson (''```'' @ w1 @ x @ w2 @ ''```'') = trim x
       \<and> cleanJson x = trim x
       \<and> parseReply parser (''```json'' @ w1 @ x @ w2 @ ''```'') = parseReply parser x
       \<and> parseReply parser (''```'' @ w1 @ x @ w2 @ ''```'') = parseReply parser x
       \<and> (trim x = x \<longrightarrow>
            parseReply parser (''```json'' @ w1 @ x @ w2 @ ''```'') = parser x
          \<and> parseReply parser (''```'' @ w1 @ x @ w2 @ ''```'') = parser x)"
  using cleanJson_json_fence[OF assms(1,2), of x]
    cleanJson_plain_fence[OF assms(1,2) beginsLikeJson_not_json_tag[OF assms(1,3)]]
    cleanJson_bare[OF assms(3)]
  by (simp add: parseReply_def)

text \<open>The reply \<open>```json {"a":1}\<close>, a line break, \<open>```\<close> of the specification.\<close>

theorem cleanJson_fence_roundtrip_witness:
  "list_all isWhiteSpace '' '' \<and> list_all isWhiteSpace ''\<newline>'' \<and> beginsLikeJson ''{\"a\":1}''
   \<and> cleanJson ''```json {\"a\":1}\<newline>```'' = ''{\"a\":1}''
   \<and> cleanJson ''``` {\"a\":1}\<newline>```'' = ''{\"a\":1}''
   \<and> trim ''{\"a\":1}'' = ''{\"a\":1}''
   \<and> parseReply (\<lambda>s. Inr (JStr s)) ''```json {\"a\":1}\<newline>```'' = Inr (JStr ''{\"a\":1}'')"
proof -
  have h1: "list_all isWhiteSpace '' ''" by (simp add: isWhiteSpace_def)
  have h2: "list_all isWhiteSpace ''\<newline>''" by (simp add: isWhiteSpace_def)
  have h3: "beginsLikeJson ''{\"a\":1}''"
    by (simp add: beginsLikeJson_def trimStart_def isWhiteSpace_def)
  have t: "trim ''{\"a\":1}'' = ''{\"a\":1}''"
    by (simp add: trim_def trimStart_def trimEnd_def isWhiteSpace_def)
  show ?thesis
    using cleanJson_fence_roundtrip[OF h1 h2 h3, of "\<lambda>s. Inr (JStr s)"] h1 h2 h3 t
    by (simp add: parseReply_def)
qed

subsection \<open>Trend Hunter normalisation\<close>

lemma orElse_absent: "\<not> truthyVal a \<Longrightarrow> orElse a b = b"
  by (auto simp: truthyVal_def orElse_def split: option.splits)

text \<open>
  Whatever object the reply parses to, the step ends with a non-empty array or with the
  "no valid trends" error.
\<close>

lemma normalizeTrends_object_outcomes:
  "(\<exists>t ts. normalizeTrends (JObj kvs) = Inr (JArr (t # ts)))
   \<or> normalizeTrends (JObj kvs) = Inl (Error NO_TRENDS_MESSAGE)"
  by (auto simp: normalizeTrends_def trendsFallback_def neq_Nil_conv
      split: option.splits json.splits)

text \<open>Whatever the reply parses to, a value that the step returns is a non-empty array.\<close>

lemma normalizeTrends_returns_array:
  "normalizeTrends parsed = Inr data \<Longrightarrow> \<exists>t ts. data = JArr (t # ts)"
  by (auto simp: normalizeTrends_def trendsFallback_def neq_Nil_conv
      split: option.splits json.splits if_splits)

text \<open>
  The step of lines 249 to 261 on four replies: a \<open>trends\<close> array with one item is returned
  as it is; the empty object ends in the throw of line 261; the object with only \<open>headline\<close>
  and \<open>contentIdea\<close> gives one synthesised item; an empty \<open>trends\<close> array without fallback
  fields ends in the same throw.
\<close>

lemma normalizeTrends_cases:
  "normalizeTrends
     (JObj [(''trends'',
        JArr [JObj [(''headline'', JStr H), (''whyItsHot'', JStr W), (''contentIdea'', JStr C)]])])
    = Inr (JArr [JObj [(''headline'', JStr H), (''whyItsHot'', JStr W), (''contentIdea'', JStr C)]])
   \<and> normalizeTrends (JObj []) = Inl (Error NO_TRENDS_MESSAGE)
   \<and> normalizeTrends (JObj [(''headline'', JStr ''H''), (''contentIdea'', JStr ''C'')])
       = Inr (JArr [JObj [(''headline'', JStr ''H''),
                          (''whyItsHot'', JStr ''Currently trending in your niche''),
                          (''contentIdea'', JStr ''C'')]])
   \<and> normalizeTrends (JObj [(''trends'', JArr [])]) = Inl (Error NO_TRENDS_MESSAGE)"
  by (simp add: normalizeTrends_def trendsFallback_def truthyVal_def orElse_def)

text \<open>
  The fallback tests the values, not the keys: a reply that has the key \<open>headline\<close> with
  the empty string, and no \<open>trends\<close> array, ends in the error.
\<close>

theorem fallback_key_with_falsy_value:
  "getProp (JObj [(''headline'', JStr [])]) ''headline'' = Some (JStr [])
   \<and> \<not> hasNonEmptyTrends (JObj [(''headline'', JStr [])])
   \<and> normalizeTrends (JObj [(''headline'', JStr [])]) = Inl (Error NO_TRENDS_MESSAGE)"
  by (simp add: normalizeTrends_def trendsFallback_def truthyVal_def hasNonEmptyTrends_def)

lemma normalizeTrends_no_array:
  assumes "\<not> hasNonEmptyTrends (JObj kvs)"
  shows "normalizeTrends (JObj kvs) = trendsFallback (JObj kvs)"
  using assms
  by (auto simp: normalizeTrends_def hasNonEmptyTrends_def split: option.splits json.splits)

text \<open>
  Claim C10, amended. When the parsed object has no non-empty \<open>trends\<close> array and at least
  one of \<open>trend\<close>, \<open>contentIdea\<close>, \<open>headline\<close> has a truthy value, normalisation returns
  exactly one synthesised item; each of its three fields is the reply's value when that is
  truthy and the fixed default when it is absent or falsy.
\<close>

theorem trends_fallback_synthesis:
  assumes "\<not> hasNonEmptyTrends (JObj kvs)"
    and "truthyVal (map_of kvs ''trend'') \<or> truthyVal (map_of kvs ''contentIdea'')
         \<or> truthyVal (map_of kvs ''headline'')"
  shows "normalizeTrends (JObj kvs) =
           Inr (JArr [JObj
             [(''headline'', orElse (map_of kvs ''headline'') (JStr ''Trend Detected'')),
              (''whyItsHot'',
                 orElse (map_of kvs ''whyItsHot'') (JStr ''Currently trending in your niche'')),
              (''contentIdea'',
                 orElse (map_of kvs ''contentIdea'') (JStr ''Create content around this trend''))]])
         \<and> (\<not> truthyVal (map_of kvs ''headline'') \<longrightarrow>
              orElse (map_of kvs ''headline'') (JStr ''Trend Detected'') = JStr ''Trend Detected'')
         \<and> (\<not> truthyVal (map_of kvs ''whyItsHot'') \<longrightarrow>
              orElse (map_of kvs ''whyItsHot'') (JStr ''Currently trending in your niche'')
                = JStr ''Currently trending in your niche'')
         \<and> (\<not> truthyVal (map_of kvs ''contentIdea'') \<longrightarrow>
              orElse (map_of kvs ''contentIdea'') (JStr ''Create content around this trend'')
                = JStr ''Create content around this trend'')"
  using assms normalizeTrends_no_array[OF assms(1)]
  by (simp add: trendsFallback_def orElse_absent)

text \<open>A top-level \<open>trend\<close> key alone triggers the fallback.\<close>

theorem trends_fallback_synthesis_witness:
  "\<not> hasNonEmptyTrends (JObj [(''trend'', JStr ''x'')])
   \<and> truthyVal (map_of [(''trend'', JStr ''x'')] ''trend'')
   \<and> normalizeTrends (JObj [(''trend'', JStr ''x'')]) =
        Inr (JArr [JObj
          [(''headline'', JStr ''Trend Detected''),
           (''whyItsHot'', JStr ''Currently trending in your niche''),
           (''contentIdea'', JStr ''Create content around this trend'')]])"
proof -
  have h1: "\<not> hasNonEmptyTrends (JObj [(''trend'', JStr ''x'')])"
    by (simp add: hasNonEmptyTrends_def)
  have h2: "truthyVal (map_of [(''trend'', JStr ''x'')] ''trend'')
            \<or> truthyVal (map_of [(''trend'', JStr ''x'')] ''contentIdea'')
            \<or> truthyVal (map_of [(''trend'', JStr ''x'')] ''headline'')"
    by (simp add: truthyVal_def)
  show ?thesis
    using trends_fallback_synthesis[OF h1 h2] h1
    by (simp add: truthyVal_def orElse_def)
qed

subsection \<open>Response contract\<close>

lemma configureRequest_search:
  "useSearch mode config \<Longrightarrow>
     tools (configureRequest mode config) = Some [googleSearch]
     \<and> responseSchema (configureRequest mode config) = None
     \<and> responseMimeType (configureRequest mode config) = None"
  by (simp add: configureRequest_def)

lemma configureRequest_schema:
  "\<not> useSearch mode config \<Longrightarrow>
     tools (configureRequest mode config) = None
     \<and> responseSchema (configureRequest mode config) = Some ANALYSIS_RESULT_SCHEMA
     \<and> responseMimeType (configureRequest mode config) = Some ''application/json''"
  by (simp add: configureRequest_def)

lemma buildRequest_config:
  "buildRequest ai files mode platform config apiKey = Inr req \<Longrightarrow>
     req_config req = configureRequest mode config"
  by (auto simp: buildRequest_def split: if_splits sum.splits)

lemma useSearch_iff:
  "useSearch mode config \<longleftrightarrow> (mode = TREND_HUNTER \<or> enableLiveTrends config = Some True)"
  by (auto simp: useSearch_def truthyBool_def split: option.splits)

text \<open>
  Claim C1. Every request that \<open>analyzeContent\<close> builds carries either the search tool or
  the output schema, never both: when the mode is Trend Hunter or \<open>enableLiveTrends\<close> is
  true, the search tool is attached and neither \<open>responseSchema\<close> nor \<open>responseMimeType\<close> is
  set; otherwise the schema of the analysis result and the JSON media type are set and no
  tool is attached.
\<close>

theorem request_contract_exclusive:
  assumes "buildRequest ai files mode platform config apiKey = Inr req"
  shows "(if mode = TREND_HUNTER \<or> enableLiveTrends config = Some True
          then tools (req_config req) = Some [googleSearch]
               \<and> responseSchema (req_config req) = None
               \<and> responseMimeType (req_config req) = None
          else tools (req_config req) = None
               \<and> responseSchema (req_config req) = Some ANALYSIS_RESULT_SCHEMA
               \<and> responseMimeType (req_config req) = Some ''application/json'')
         \<and> (tools (req_config req) = None \<or> responseSchema (req_config req) = None)"
proof (cases "useSearch mode config")
  case True
  then show ?thesis
    using configureRequest_search[OF True] buildRequest_config[OF assms] useSearch_iff[of mode config]
    by simp
next
  case False
  then show ?thesis
    using configureRequest_schema[OF False] buildRequest_config[OF assms] useSearch_iff[of mode config]
    by simp
qed

lemma buildRequest_refine_example:
  "buildRequest quietService [] REFINE ''Instagram'' (plainConfig\<lparr>originalText := Some ''draft''\<rparr>) ''AIza''
     = Inr \<lparr>req_model = MODEL_NAME,
            req_contents =
              [Text (JSON_REMINDER @ MODE_PROMPTS_REFINE ''draft'' [] [])],
            req_config = configureRequest REFINE (plainConfig\<lparr>originalText := Some ''draft''\<rparr>)\<rparr>"
  by (simp add: buildRequest_def composePrompt_def prepareParts_def quietService_def
      plainConfig_def truthyBool_def truthyStr_def strOr_def targetingBlock_def labelled_def)

lemma buildRequest_trend_example:
  "buildRequest quietService [] TREND_HUNTER ''Instagram''
       (plainConfig\<lparr>niche := Some ''Vegan Cooking''\<rparr>) ''AIza''
     = Inr \<lparr>req_model = MODEL_NAME,
            req_contents = [Text (MODE_PROMPTS_TREND_HUNTER ''Vegan Cooking'' ''November 2026'')],
            req_config = configureRequest TREND_HUNTER (plainConfig\<lparr>niche := Some ''Vegan Cooking''\<rparr>)\<rparr>"
  by (simp add: buildRequest_def composePrompt_def prepareParts_def quietService_def
      plainConfig_def)

text \<open>
  A Refine request without live trends carries the schema and no tool; a Trend Hunter
  request carries the tool and no schema.
\<close>

theorem request_contract_exclusive_witness:
  "buildRequest quietService [] REFINE ''Instagram'' (plainConfig\<lparr>originalText := Some ''draft''\<rparr>) ''AIza''
     = Inr \<lparr>req_model = MODEL_NAME,
            req_contents = [Text (JSON_REMINDER @ MODE_PROMPTS_REFINE ''draft'' [] [])],
            req_config = configureRequest REFINE (plainConfig\<lparr>originalText := Some ''draft''\<rparr>)\<rparr>
   \<and> tools (configureRequest REFINE (plainConfig\<lparr>originalText := Some ''draft''\<rparr>)) = None
   \<and> responseSchema (configureRequest REFINE (plainConfig\<lparr>originalText := Some ''draft''\<rparr>))
       = Some ANALYSIS_RESULT_SCHEMA
   \<and> tools (configureRequest TREND_HUNTER (plainConfig\<lparr>niche := Some ''Vegan Cooking''\<rparr>))
       = Some [googleSearch]
   \<and> responseSchema (configureRequest TREND_HUNTER (plainConfig\<lparr>niche := Some ''Vegan Cooking''\<rparr>))
       = None"
  using request_contract_exclusive[OF buildRequest_refine_example] buildRequest_refine_example
    request_contract_exclusive[OF buildRequest_trend_example]
  by (simp add: plainConfig_def)

subsection \<open>Encoding path\<close>

lemma fileToPart_inline: "fileToPart ai f = Inr p \<Longrightarrow> isInlineData p"
  by (auto simp: fileToPart_def split: sum.splits)

lemma uploadLargeFile_fileData: "uploadLargeFile ai f = Inr p \<Longrightarrow> isFileData p"
  by (auto simp: uploadLargeFile_def uploadLargeFile_try_def split: sum.splits if_splits)

lemma encodeFile_kind:
  assumes "encodeFile ai f = Inr p"
  shows "(file_size f \<le> 20 * 1024 * 1024 \<longrightarrow> isInlineData p \<and> \<not> isFileData p)
       \<and> (20 * 1024 * 1024 < file_size f \<longrightarrow> isFileData p \<and> \<not> isInlineData p)"
proof (cases "file_size f > FILE_SIZE_THRESHOLD")
  case True
  then have "uploadLargeFile ai f = Inr p" using assms by (simp add: encodeFile_def)
  then have "isFileData p" by (rule uploadLargeFile_fileData)
  then show ?thesis using True by (cases p) (simp_all add: FILE_SIZE_THRESHOLD_def)
next
  case False
  then have "fileToPart ai f = Inr p" using assms by (simp add: encodeFile_def)
  then have "isInlineData p" by (rule fileToPart_inline)
  then show ?thesis using False by (cases p) (simp_all add: FILE_SIZE_THRESHOLD_def)
qed

lemma encodeFiles_kinds:
  "encodeFiles ai fs = Inr ps \<Longrightarrow>
     length ps = length fs
     \<and> (\<forall>i<length fs.
          (file_size (fs ! i) \<le> 20 * 1024 * 1024 \<longrightarrow> isInlineData (ps ! i) \<and> \<not> isFileData (ps ! i))
        \<and> (20 * 1024 * 1024 < file_size (fs ! i) \<longrightarrow> isFileData (ps ! i) \<and> \<not> isInlineData (ps ! i)))"
proof (induction fs arbitrary: ps)
  case Nil
  then show ?case by simp
next
  case (Cons f fs)
  from Cons.prems obtain p ps' where p: "encodeFile ai f = Inr p"
    and ps': "encodeFiles ai fs = Inr ps'" and ps: "ps = p # ps'"
    by (auto split: sum.splits)
  note ih = Cons.IH[OF ps']
  note k = encodeFile_kind[OF p]
  show ?case
  proof (intro conjI allI impI)
    show "length ps = length (f # fs)" using ih ps by simp
  next
    fix i assume "i < length (f # fs)" "file_size ((f # fs) ! i) \<le> 20 * 1024 * 1024"
    then show "isInlineData (ps ! i)" using ih k ps by (cases i) auto
  next
    fix i assume "i < length (f # fs)" "file_size ((f # fs) ! i) \<le> 20 * 1024 * 1024"
    then show "\<not> isFileData (ps ! i)" using ih k ps by (cases i) auto
  next
    fix i assume "i < length (f # fs)" "20 * 1024 * 1024 < file_size ((f # fs) ! i)"
    then show "isFileData (ps ! i)" using ih k ps by (cases i) auto
  next
    fix i assume "i < length (f # fs)" "20 * 1024 * 1024 < file_size ((f # fs) ! i)"
    then show "\<not> isInlineData (ps ! i)" using ih k ps by (cases i) auto
  qed
qed

text \<open>
  A file of exactly 20 MiB (20971520 bytes) is read and sent inline; it is not uploaded.
\<close>

theorem threshold_file_is_inline:
  "file_size (videoOfSize 20971520) = 20 * 1024 * 1024
   \<and> encodeFile quietService (videoOfSize 20971520) = Inr (InlineData ''AAAA'' ''video/mp4'')
   \<and> \<not> isFileData (InlineData ''AAAA'' ''video/mp4'')"
  by (simp add: encodeFile_def FILE_SIZE_THRESHOLD_def videoOfSize_def fileToPart_def
      quietService_def splitComma1_def)

text \<open>
  Claim C2, amended. In a request that is not in Trend Hunter mode, the parts are the prompt
  text followed by one part for each file in order, and the path of each file is decided by
  its size alone against 20 MiB: a file of at most 20 MiB (the threshold included) is
  encoded inline by \<open>fileToPart\<close>, a file strictly above it goes through
  \<open>uploadLargeFile\<close>.
\<close>

theorem encoding_path_by_size:
  assumes "mode \<noteq> TREND_HUNTER"
    and "prepareParts ai mode promptText fs = Inr ps"
  shows "length ps = Suc (length fs) \<and> ps ! 0 = Text promptText
       \<and> (\<forall>i<length fs.
            encodeFile ai (fs ! i) =
              (if file_size (fs ! i) \<le> 20 * 1024 * 1024 then fileToPart ai (fs ! i)
               else uploadLargeFile ai (fs ! i))
          \<and> (file_size (fs ! i) \<le> 20 * 1024 * 1024 \<longrightarrow>
                isInlineData (ps ! Suc i) \<and> \<not> isFileData (ps ! Suc i))
          \<and> (20 * 1024 * 1024 < file_size (fs ! i) \<longrightarrow>
                isFileData (ps ! Suc i) \<and> \<not> isInlineData (ps ! Suc i)))"
proof -
  from assms obtain ps' where e: "encodeFiles ai fs = Inr ps'" and ps: "ps = Text promptText # ps'"
    by (auto simp: prepareParts_def split: sum.splits)
  have path: "encodeFile ai g =
      (if file_size g \<le> 20 * 1024 * 1024 then fileToPart ai g else uploadLargeFile ai g)" for g
    by (simp add: encodeFile_def FILE_SIZE_THRESHOLD_def)
  show ?thesis using encodeFiles_kinds[OF e] ps path by simp
qed

lemma prepareParts_example:
  "prepareParts quietService GENERATION ''p''
     [videoOfSize 1000, videoOfSize 20971520, videoOfSize 20971521]
   = Inr [Text ''p'', InlineData ''AAAA'' ''video/mp4'', InlineData ''AAAA'' ''video/mp4'',
          FileData ''https://files.example/abc'' ''video/mp4'']"
proof -
  have a: "pollLoop (\<lambda>k. Inr activeInfo) activeInfo 0 = Inr activeInfo"
    by (subst pollLoop.simps) (simp add: activeInfo_def)
  show ?thesis
    by (simp add: prepareParts_def encodeFile_def FILE_SIZE_THRESHOLD_def videoOfSize_def
        fileToPart_def uploadLargeFile_def uploadLargeFile_try_def quietService_def
        splitComma1_def a)
      (simp add: activeInfo_def)
qed

text \<open>Three files: below the threshold, exactly at it, and one byte above it.\<close>

theorem encoding_path_by_size_witness:
  "GENERATION \<noteq> TREND_HUNTER
   \<and> prepareParts quietService GENERATION ''p''
        [videoOfSize 1000, videoOfSize 20971520, videoOfSize 20971521]
      = Inr [Text ''p'', InlineData ''AAAA'' ''video/mp4'', InlineData ''AAAA'' ''video/mp4'',
             FileData ''https://files.example/abc'' ''video/mp4'']
   \<and> isInlineData ([Text ''p'', InlineData ''AAAA'' ''video/mp4'', InlineData ''AAAA'' ''video/mp4'',
             FileData ''https://files.example/abc'' ''video/mp4''] ! Suc 1)
   \<and> isFileData ([Text ''p'', InlineData ''AAAA'' ''video/mp4'', InlineData ''AAAA'' ''video/mp4'',
             FileData ''https://files.example/abc'' ''video/mp4''] ! Suc 2)"
proof -
  let ?fs = "[videoOfSize 1000, videoOfSize 20971520, videoOfSize 20971521]"
  let ?ps = "[Text ''p'', InlineData ''AAAA'' ''video/mp4'', InlineData ''AAAA'' ''video/mp4'',
             FileData ''https://files.example/abc'' ''video/mp4'']"
  have m: "GENERATION \<noteq> TREND_HUNTER" by simp
  have l1: "1 < length ?fs" and l2: "2 < length ?fs" by simp_all
  have s1: "file_size (?fs ! 1) \<le> 20 * 1024 * 1024"
    by (simp add: videoOfSize_def)
  have s2: "20 * 1024 * 1024 < file_size (?fs ! 2)"
    by (simp add: videoOfSize_def)
  note each =
    encoding_path_by_size[OF m prepareParts_example, THEN conjunct2, THEN conjunct2, rule_format]
  have i1: "isInlineData (?ps ! Suc 1)"
    using each[OF l1, THEN conjunct2, THEN conjunct1, rule_format, OF s1] by (rule conjunct1)
  have i2: "isFileData (?ps ! Suc 2)"
    using each[OF l2, THEN conjunct2, THEN conjunct2, rule_format, OF s2] by (rule conjunct1)
  show ?thesis using m prepareParts_example i1 i2 by (intro conjI)
qed

subsection \<open>Upload and polling\<close>

lemma pollLoop_failed_first:
  "state fileInfo = ''FAILED'' \<Longrightarrow> pollLoop get fileInfo attempts = Inr fileInfo"
  by (subst pollLoop.simps) simp

text \<open>
  A file that the service reports as failed ends the upload with the error of the \<open>catch\<close>
  block, whenever the report arrives.
\<close>

lemma uploadLargeFile_failed:
  assumes "files_upload ai f = Inr name"
    and "files_get ai name 0 = Inr fileInfo0"
    and "pollLoop (files_get ai name) fileInfo0 0 = Inr fileInfo"
    and "state fileInfo = ''FAILED''"
  shows "uploadLargeFile ai f = Inl (Error UPLOAD_FAILED_MESSAGE)"
  using assms by (simp add: uploadLargeFile_def uploadLargeFile_try_def)

text \<open>
  A file that is still processing after every query: the loop stops when the counter
  reaches 30 and hands back the last answer.
\<close>

lemma pollLoop_always_processing:
  assumes "\<And>k. get k = Inr info" and "state info = ''PROCESSING''"
  shows "pollLoop get info attempts = Inr info"
proof (induction "30 - attempts" arbitrary: attempts)
  case 0
  then show ?case by (subst pollLoop.simps) simp
next
  case (Suc n)
  then have lt: "attempts < 30" and n: "n = 30 - Suc attempts" by simp_all
  have "pollLoop get info attempts = pollLoop get info (Suc attempts)"
    using assms lt by (subst pollLoop.simps) simp
  then show ?case using Suc.hyps(1)[OF n] by simp
qed

lemma uploadLargeFile_always_processing:
  assumes "files_upload ai f = Inr name"
    and "\<And>k. files_get ai name k = Inr info"
    and "state info = ''PROCESSING''"
  shows "uploadLargeFile ai f = Inr (FileData (uri info) (mimeType info))"
  using assms pollLoop_always_processing[of "files_get ai name" info 0]
  by (simp add: uploadLargeFile_def uploadLargeFile_try_def)

text \<open>
  Claim C3. The claim asks that running out of the 30 polling attempts be an error. With a
  service that answers "processing" to every query, \<open>uploadLargeFile\<close> returns a file
  reference built from the last answer, whose state is still "processing": no error is
  raised.
\<close>

theorem poll_limit_returns_reference:
  "uploadLargeFile stuckService (videoOfSize 20971521)
     = Inr (FileData ''https://files.example/abc'' ''video/mp4'')
   \<and> pollLoop (files_get stuckService ''files/abc'') processingInfo 0 = Inr processingInfo
   \<and> state processingInfo = ''PROCESSING''"
proof -
  have u: "files_upload stuckService (videoOfSize 20971521) = Inr ''files/abc''"
    by (simp add: stuckService_def quietService_def)
  have g: "\<And>k. files_get stuckService ''files/abc'' k = Inr processingInfo"
    by (simp add: stuckService_def quietService_def)
  have s: "state processingInfo = ''PROCESSING''"
    by (simp add: processingInfo_def)
  show ?thesis
    using uploadLargeFile_always_processing[OF u g s]
      pollLoop_always_processing[of "files_get stuckService ''files/abc''" processingInfo 0, OF g s] s
    by (simp add: processingInfo_def)
qed

subsection \<open>Errors surfaced by \<open>analyzeContent\<close>\<close>

lemma upload_message_is_generic:
  "mapError (Error UPLOAD_FAILED_MESSAGE) = Error CONNECTION_FAILED_MESSAGE"
  by (simp add: mapError_def messageIncludes_def Error_def UPLOAD_FAILED_MESSAGE_def
      startsWith_def)

lemma encodeFiles_first_upload_error:
  assumes "FILE_SIZE_THRESHOLD < file_size f" and "uploadLargeFile_try ai f = Inl e"
  shows "encodeFiles ai (f # fs) = Inl (Error UPLOAD_FAILED_MESSAGE)"
  using assms by (simp add: encodeFile_def uploadLargeFile_def)

text \<open>
  Whatever fails while the first large file is uploaded or polled, the caller of
  \<open>analyzeContent\<close> receives the generic connection message.
\<close>

lemma upload_error_surfaces_as_connection_failed:
  assumes "apiKey \<noteq> []" and "mode \<noteq> TREND_HUNTER"
    and "FILE_SIZE_THRESHOLD < file_size f" and "uploadLargeFile_try ai f = Inl e"
  shows "analyzeContent ai (f # fs) mode platform config apiKey
           = Inl (Error CONNECTION_FAILED_MESSAGE)"
proof -
  obtain promptText where
    p: "composePrompt (date_toLocaleString ai) (length (f # fs)) mode platform config
          = Inr promptText"
    using assms(2) by (simp add: composePrompt_def Let_def)
  have "prepareParts ai mode promptText (f # fs) = Inl (Error UPLOAD_FAILED_MESSAGE)"
    using assms(2) encodeFiles_first_upload_error[OF assms(3,4)]
    by (simp add: prepareParts_def)
  then have "buildRequest ai (f # fs) mode platform config apiKey
      = Inl (Error UPLOAD_FAILED_MESSAGE)"
    using assms(1) p by (simp add: buildRequest_def)
  then show ?thesis
    by (simp add: analyzeContent_def upload_message_is_generic)
qed

text \<open>
  Claim C9. The claim asks that a transport error during the upload reach the caller of
  \<open>analyzeContent\<close> as an error that tells "upload failed" apart from a connection failure.
  With an upload that fails in the transport, \<open>uploadLargeFile\<close> throws its own message,
  and \<open>analyzeContent\<close> replaces it: the caller receives the connection message.
\<close>

theorem upload_failure_reported_as_connection_failure:
  "uploadLargeFile offlineService (videoOfSize 20971521) = Inl (Error UPLOAD_FAILED_MESSAGE)
   \<and> analyzeContent offlineService [videoOfSize 20971521] GENERATION ''Instagram'' plainConfig
        ''AIza'' = Inl (Error CONNECTION_FAILED_MESSAGE)
   \<and> UPLOAD_FAILED_MESSAGE \<noteq> CONNECTION_FAILED_MESSAGE"
proof -
  have t: "uploadLargeFile_try offlineService (videoOfSize 20971521)
      = Inl (Thrown (Some ''TypeError'') (Some ''Failed to fetch''))"
    by (simp add: uploadLargeFile_try_def offlineService_def quietService_def)
  have sz: "FILE_SIZE_THRESHOLD < file_size (videoOfSize 20971521)"
    by (simp add: FILE_SIZE_THRESHOLD_def videoOfSize_def)
  have k: "''AIza'' \<noteq> []" by simp
  have m: "GENERATION \<noteq> TREND_HUNTER" by simp
  have u: "uploadLargeFile offlineService (videoOfSize 20971521) = Inl (Error UPLOAD_FAILED_MESSAGE)"
    using t by (simp add: uploadLargeFile_def)
  have d: "UPLOAD_FAILED_MESSAGE \<noteq> CONNECTION_FAILED_MESSAGE"
    by (simp add: UPLOAD_FAILED_MESSAGE_def CONNECTION_FAILED_MESSAGE_def)
  show ?thesis
    using upload_error_surfaces_as_connection_failed[OF k m sz t, of "[]" "''Instagram''" plainConfig]
      u d by simp
qed

text \<open>
  The same replacement meets the error of the Trend Hunter step. No call of
  \<open>analyzeContent\<close> ends with another message than the three of its outer \<open>catch\<close>.
\<close>

lemma no_trends_message_is_generic:
  "mapError (Error NO_TRENDS_MESSAGE) = Error CONNECTION_FAILED_MESSAGE"
  by (simp add: mapError_def messageIncludes_def Error_def NO_TRENDS_MESSAGE_def
      startsWith_def)

lemma analyzeContent_error_messages:
  assumes "analyzeContent ai files mode platform config apiKey = Inl e"
  shows "e = Error ''The file is too large for the current connection. Please try a smaller file.''
       \<or> e = Error ''Request timed out. Please check your internet connection and try again.''
       \<or> e = Error CONNECTION_FAILED_MESSAGE"
  using assms by (auto simp: analyzeContent_def mapError_def split: sum.splits if_splits)

lemma analyzeContent_never_no_trends:
  "analyzeContent ai files mode platform config apiKey \<noteq> Inl (Error NO_TRENDS_MESSAGE)"
proof
  assume "analyzeContent ai files mode platform config apiKey = Inl (Error NO_TRENDS_MESSAGE)"
  from analyzeContent_error_messages[OF this] show False
    by (simp add: Error_def NO_TRENDS_MESSAGE_def CONNECTION_FAILED_MESSAGE_def)
qed

text \<open>
  A Trend Hunter call whose reply text parses to \<open>parsed\<close>: the request is built without
  any file, and the outcome is the one of the normalisation step, its error replaced.
\<close>

lemma trend_call_reaches_normalisation:
  assumes "apiKey \<noteq> []" and "niche config = Some n" and "n \<noteq> []"
    and "\<And>req. models_generateContent ai req = Inr (Some reply)" and "reply \<noteq> []"
    and "JSON_parse ai (cleanJson reply) = Inr parsed"
  shows "analyzeContent ai files TREND_HUNTER platform config apiKey =
           (case callAndNormalize ai TREND_HUNTER
                   \<lparr>req_model = MODEL_NAME,
                    req_contents = [Text (MODE_PROMPTS_TREND_HUNTER n (date_toLocaleString ai))],
                    req_config = configureRequest TREND_HUNTER config\<rparr> of
              Inl error \<Rightarrow> Inl (mapError error) | Inr r \<Rightarrow> Inr r)
         \<and> callAndNormalize_try ai TREND_HUNTER
              \<lparr>req_model = MODEL_NAME,
               req_contents = [Text (MODE_PROMPTS_TREND_HUNTER n (date_toLocaleString ai))],
               req_config = configureRequest TREND_HUNTER config\<rparr> = normalizeTrends parsed"
proof -
  have b: "buildRequest ai files TREND_HUNTER platform config apiKey =
      Inr \<lparr>req_model = MODEL_NAME,
           req_contents = [Text (MODE_PROMPTS_TREND_HUNTER n (date_toLocaleString ai))],
           req_config = configureRequest TREND_HUNTER config\<rparr>"
    using assms(1,2,3) by (simp add: buildRequest_def composePrompt_def Let_def prepareParts_def)
  have c: "callAndNormalize_try ai TREND_HUNTER
              \<lparr>req_model = MODEL_NAME,
               req_contents = [Text (MODE_PROMPTS_TREND_HUNTER n (date_toLocaleString ai))],
               req_config = configureRequest TREND_HUNTER config\<rparr> = normalizeTrends parsed"
    using assms(4,5,6)
    by (simp add: callAndNormalize_try_def truthyStr_def strOr_def parseReply_def)
  show ?thesis using b c by (simp add: analyzeContent_def)
qed

lemma trend_call_returns_item:
  assumes "apiKey \<noteq> []" and "niche config = Some n" and "n \<noteq> []"
    and "\<And>req. models_generateContent ai req = Inr (Some reply)" and "reply \<noteq> []"
    and "JSON_parse ai (cleanJson reply) = Inr parsed"
    and "normalizeTrends parsed = Inr data"
  shows "analyzeContent ai files TREND_HUNTER platform config apiKey = Inr data"
  using trend_call_reaches_normalisation[OF assms(1-6), of files platform] assms(7)
  by (simp add: callAndNormalize_def)

lemma trend_call_without_trends:
  assumes "apiKey \<noteq> []" and "niche config = Some n" and "n \<noteq> []"
    and "\<And>req. models_generateContent ai req = Inr (Some reply)" and "reply \<noteq> []"
    and "JSON_parse ai (cleanJson reply) = Inr parsed"
    and "normalizeTrends parsed = Inl (Error NO_TRENDS_MESSAGE)"
  shows "analyzeContent ai files TREND_HUNTER platform config apiKey
           = Inl (Error CONNECTION_FAILED_MESSAGE)"
  using trend_call_reaches_normalisation[OF assms(1-6), of files platform] assms(7)
  by (simp add: callAndNormalize_def Error_def no_trends_message_is_generic[unfolded Error_def])

lemma replyService_fields:
  "models_generateContent (replyService reply parsed) req = Inr (Some reply)"
  "JSON_parse (replyService reply parsed) t = Inr parsed"
  by (simp_all add: replyService_def)

text \<open>
  Claim C4. The claim asks that the empty object, and an empty \<open>trends\<close> array without
  fallback fields, fail with the "no valid trends" error, and that the two other replies
  return one item. The two items are returned as the claim says. The error is thrown by
  line 261 and then replaced by the outer \<open>catch\<close> of the same function: for both replies the
  caller of \<open>analyzeContent\<close> receives the connection message.
\<close>

theorem no_trends_error_reported_as_connection_failure:
  "normalizeTrends (JObj []) = Inl (Error NO_TRENDS_MESSAGE)
   \<and> analyzeContent (replyService ''{}'' (JObj [])) [] TREND_HUNTER ''Instagram''
        (plainConfig\<lparr>niche := Some ''Vegan Cooking''\<rparr>) ''AIza''
       = Inl (Error CONNECTION_FAILED_MESSAGE)
   \<and> normalizeTrends (JObj [(''trends'', JArr [])]) = Inl (Error NO_TRENDS_MESSAGE)
   \<and> analyzeContent (replyService ''{\"trends\":[]}'' (JObj [(''trends'', JArr [])])) []
        TREND_HUNTER ''Instagram'' (plainConfig\<lparr>niche := Some ''Vegan Cooking''\<rparr>) ''AIza''
       = Inl (Error CONNECTION_FAILED_MESSAGE)
   \<and> analyzeContent
        (replyService
           ''{\"trends\":[{\"headline\":\"H\",\"whyItsHot\":\"W\",\"contentIdea\":\"C\"}]}''
           (JObj [(''trends'',
              JArr [JObj [(''headline'', JStr ''H''), (''whyItsHot'', JStr ''W''),
                          (''contentIdea'', JStr ''C'')]])]))
        [] TREND_HUNTER ''Instagram'' (plainConfig\<lparr>niche := Some ''Vegan Cooking''\<rparr>) ''AIza''
       = Inr (JArr [JObj [(''headline'', JStr ''H''), (''whyItsHot'', JStr ''W''),
                          (''contentIdea'', JStr ''C'')]])
   \<and> analyzeContent
        (replyService ''{\"headline\":\"H\",\"contentIdea\":\"C\"}''
           (JObj [(''headline'', JStr ''H''), (''contentIdea'', JStr ''C'')]))
        [] TREND_HUNTER ''Instagram'' (plainConfig\<lparr>niche := Some ''Vegan Cooking''\<rparr>) ''AIza''
       = Inr (JArr [JObj [(''headline'', JStr ''H''),
                          (''whyItsHot'', JStr ''Currently trending in your niche''),
                          (''contentIdea'', JStr ''C'')]])
   \<and> NO_TRENDS_MESSAGE \<noteq> CONNECTION_FAILED_MESSAGE"
proof -
  let ?c = "plainConfig\<lparr>niche := Some ''Vegan Cooking''\<rparr>"
  have k: "''AIza'' \<noteq> []" and n: "niche ?c = Some ''Vegan Cooking''"
    and v: "''Vegan Cooking'' \<noteq> []"
    by simp_all
  note cases = normalizeTrends_cases[of "''H''" "''W''" "''C''"]
  have e1: "normalizeTrends (JObj []) = Inl (Error NO_TRENDS_MESSAGE)"
    using cases by blast
  have e2: "normalizeTrends (JObj [(''trends'', JArr [])]) = Inl (Error NO_TRENDS_MESSAGE)"
    using cases by blast
  have r1: "normalizeTrends
       (JObj [(''trends'',
          JArr [JObj [(''headline'', JStr ''H''), (''whyItsHot'', JStr ''W''),
                      (''contentIdea'', JStr ''C'')]])])
      = Inr (JArr [JObj [(''headline'', JStr ''H''), (''whyItsHot'', JStr ''W''),
                         (''contentIdea'', JStr ''C'')]])"
    using cases by blast
  have r3: "normalizeTrends (JObj [(''headline'', JStr ''H''), (''contentIdea'', JStr ''C'')])
      = Inr (JArr [JObj [(''headline'', JStr ''H''),
                         (''whyItsHot'', JStr ''Currently trending in your niche''),
                         (''contentIdea'', JStr ''C'')]])"
    using cases by blast
  have a1: "analyzeContent (replyService ''{}'' (JObj [])) [] TREND_HUNTER ''Instagram'' ?c ''AIza''
       = Inl (Error CONNECTION_FAILED_MESSAGE)"
    by (rule trend_call_without_trends[OF k n v replyService_fields(1) _ replyService_fields(2) e1])
      simp
  have a2: "analyzeContent (replyService ''{\"trends\":[]}'' (JObj [(''trends'', JArr [])])) []
        TREND_HUNTER ''Instagram'' ?c ''AIza'' = Inl (Error CONNECTION_FAILED_MESSAGE)"
    by (rule trend_call_without_trends[OF k n v replyService_fields(1) _ replyService_fields(2) e2])
      simp
  have a3: "analyzeContent
        (replyService
           ''{\"trends\":[{\"headline\":\"H\",\"whyItsHot\":\"W\",\"contentIdea\":\"C\"}]}''
           (JObj [(''trends'',
              JArr [JObj [(''headline'', JStr ''H''), (''whyItsHot'', JStr ''W''),
                          (''contentIdea'', JStr ''C'')]])]))
        [] TREND_HUNTER ''Instagram'' ?c ''AIza''
       = Inr (JArr [JObj [(''headline'', JStr ''H''), (''whyItsHot'', JStr ''W''),
                          (''contentIdea'', JStr ''C'')]])"
    by (rule trend_call_returns_item[OF k n v replyService_fields(1) _ replyService_fields(2) r1])
      simp
  have a4: "analyzeContent
        (replyService ''{\"headline\":\"H\",\"contentIdea\":\"C\"}''
           (JObj [(''headline'', JStr ''H''), (''contentIdea'', JStr ''C'')]))
        [] TREND_HUNTER ''Instagram'' ?c ''AIza''
       = Inr (JArr [JObj [(''headline'', JStr ''H''),
                          (''whyItsHot'', JStr ''Currently trending in your niche''),
                          (''contentIdea'', JStr ''C'')]])"
    by (rule trend_call_returns_item[OF k n v replyService_fields(1) _ replyService_fields(2) r3])
      simp
  have d: "NO_TRENDS_MESSAGE \<noteq> CONNECTION_FAILED_MESSAGE"
    by (simp add: NO_TRENDS_MESSAGE_def CONNECTION_FAILED_MESSAGE_def)
  show ?thesis using e1 a1 e2 a2 a3 a4 d by (intro conjI)
qed

text \<open>
  In Trend Hunter mode the handler receives a non-empty array or an error, so the length
  test of line 192 holds for every value it meets there.
\<close>

lemma analyzeContent_trend_result:
  assumes "analyzeContent ai files TREND_HUNTER platform config apiKey = Inr data"
  shows "\<exists>t ts. data = JArr (t # ts)"
proof -
  from assms obtain req where "callAndNormalize ai TREND_HUNTER req = Inr data"
    by (auto simp: analyzeContent_def split: sum.splits)
  then have "callAndNormalize_try ai TREND_HUNTER req = Inr data"
    by (auto simp: callAndNormalize_def split: sum.splits if_splits)
  then obtain parsed where "normalizeTrends parsed = Inr data"
    by (auto simp: callAndNormalize_try_def split: sum.splits if_splits)
  then show ?thesis by (rule normalizeTrends_returns_array)
qed

lemma hasElements_array: "hasElements ai (JArr (t # ts)) = Inr True"
  by (simp add: hasElements_def lengthOf_def greaterThanZero_def)

subsection \<open>Combined size of the inputs\<close>

lemma foldl_size: "foldl (\<lambda>sum f. sum + file_size f) a fs = a + sum_list (map file_size fs)"
  by (induction fs arbitrary: a) simp_all

lemma totalSize_sum: "totalSize fs = sum_list (map file_size fs)"
  by (simp add: totalSize_def foldl_size)

lemma handleAnalyze_too_large:
  assumes "MAX_TOTAL_SIZE < totalSize (map file (st_files s))"
  shows "handleAnalyze ai s =
     (case modeValidation (st_mode s) (st_files s) (st_config s) of
        Some msg \<Rightarrow> s\<lparr>st_error := Some msg\<rparr>
      | None \<Rightarrow> (resetForAnalysis s)\<lparr>st_error := Some SIZE_ERROR_MESSAGE, st_isAnalyzing := False\<rparr>)"
  using assms by (simp add: handleAnalyze_def Let_def split: option.splits)

lemma handleAnalyze_within_limit:
  assumes "totalSize (map file (st_files s)) \<le> MAX_TOTAL_SIZE"
    and "modeValidation (st_mode s) (st_files s) (st_config s) = None"
  shows "handleAnalyze ai s =
     afterAnalyze ai (resetForAnalysis s)
       (analyzeContent ai (map file (st_files s)) (st_mode s) (st_platform s) (st_config s)
          (st_apiKey s))"
  using assms by (simp add: handleAnalyze_def Let_def)

text \<open>
  Claim C5. When the sizes of the selected files add up to more than 100 MiB (104857600
  bytes), \<open>handleAnalyze\<close> ends with a validation message as its error, the size message
  unless a mode check has already failed, and its result does not depend on the
  environment: no file is read or uploaded and no request is sent. A total of at most
  100 MiB, 100 MiB itself included, passes the check: when the mode checks pass as well, the
  handler goes on to \<open>analyzeContent\<close>.
\<close>

theorem total_size_validation:
  "(104857600 < totalSize (map file (st_files s)) \<longrightarrow>
      handleAnalyze ai s = handleAnalyze ai' s
      \<and> st_error (handleAnalyze ai s) =
          Some (case modeValidation (st_mode s) (st_files s) (st_config s) of
                  Some msg \<Rightarrow> msg | None \<Rightarrow> SIZE_ERROR_MESSAGE)
      \<and> st_result (handleAnalyze ai s) = (case modeValidation (st_mode s) (st_files s) (st_config s) of
                  Some msg \<Rightarrow> st_result s | None \<Rightarrow> None))
   \<and> (totalSize (map file (st_files s)) \<le> 104857600
       \<and> modeValidation (st_mode s) (st_files s) (st_config s) = None \<longrightarrow>
      handleAnalyze ai s =
        afterAnalyze ai (resetForAnalysis s)
          (analyzeContent ai (map file (st_files s)) (st_mode s) (st_platform s) (st_config s)
             (st_apiKey s)))"
proof (intro conjI impI)
  assume a: "104857600 < totalSize (map file (st_files s))"
  then have b: "MAX_TOTAL_SIZE < totalSize (map file (st_files s))"
    by (simp add: MAX_TOTAL_SIZE_def)
  show "handleAnalyze ai s = handleAnalyze ai' s"
    by (simp add: handleAnalyze_too_large[OF b])
  show "st_error (handleAnalyze ai s) =
          Some (case modeValidation (st_mode s) (st_files s) (st_config s) of
                  Some msg \<Rightarrow> msg | None \<Rightarrow> SIZE_ERROR_MESSAGE)"
    by (simp add: handleAnalyze_too_large[OF b] split: option.splits)
  show "st_result (handleAnalyze ai s) = (case modeValidation (st_mode s) (st_files s) (st_config s) of
                  Some msg \<Rightarrow> st_result s | None \<Rightarrow> None)"
    by (simp add: handleAnalyze_too_large[OF b] resetForAnalysis_def split: option.splits)
next
  assume "totalSize (map file (st_files s)) \<le> 104857600
       \<and> modeValidation (st_mode s) (st_files s) (st_config s) = None"
  then show "handleAnalyze ai s =
        afterAnalyze ai (resetForAnalysis s)
          (analyzeContent ai (map file (st_files s)) (st_mode s) (st_platform s) (st_config s)
             (st_apiKey s))"
    using handleAnalyze_within_limit[of s ai] by (simp add: MAX_TOTAL_SIZE_def)
qed

lemma generationState_sizes:
  "totalSize (map file (st_files (generationState a b))) = a + b"
  by (simp add: generationState_def totalSize_def videoOfSize_def)

lemma generationState_mode_checks:
  "modeValidation (st_mode (generationState a b)) (st_files (generationState a b))
     (st_config (generationState a b)) = None"
  by (simp add: generationState_def modeValidation_def)

text \<open>
  Two files in Generation mode: 60 MiB and 40 MiB plus one byte are refused, 60 MiB and
  40 MiB are passed on.
\<close>

theorem total_size_validation_witness:
  "totalSize (map file (st_files (generationState 62914560 41943041))) = 104857601
   \<and> st_error (handleAnalyze quietService (generationState 62914560 41943041))
       = Some SIZE_ERROR_MESSAGE
   \<and> handleAnalyze quietService (generationState 62914560 41943041)
       = handleAnalyze offlineService (generationState 62914560 41943041)
   \<and> totalSize (map file (st_files (generationState 62914560 41943040))) = 104857600
   \<and> handleAnalyze quietService (generationState 62914560 41943040)
       = afterAnalyze quietService (resetForAnalysis (generationState 62914560 41943040))
           (analyzeContent quietService (map file (st_files (generationState 62914560 41943040)))
              GENERATION ''Instagram'' plainConfig ''AIza'')"
proof -
  let ?big = "generationState 62914560 41943041"
  let ?ok = "generationState 62914560 41943040"
  have big: "totalSize (map file (st_files ?big)) = 104857601"
    by (simp add: generationState_sizes)
  have ok: "totalSize (map file (st_files ?ok)) = 104857600"
    by (simp add: generationState_sizes)
  have f: "st_mode ?ok = GENERATION" "st_platform ?ok = ''Instagram''"
    "st_config ?ok = plainConfig" "st_apiKey ?ok = ''AIza''"
    by (simp_all add: generationState_def)
  have p1: "104857600 < totalSize (map file (st_files ?big))"
    using big by simp
  have p2: "totalSize (map file (st_files ?ok)) \<le> 104857600
      \<and> modeValidation (st_mode ?ok) (st_files ?ok) (st_config ?ok) = None"
    using ok generationState_mode_checks[of 62914560 41943040] by simp
  note refused =
    total_size_validation[of ?big quietService offlineService, THEN conjunct1, rule_format, OF p1]
  note passed =
    total_size_validation[of ?ok quietService quietService, THEN conjunct2, rule_format, OF p2]
  have e: "st_error (handleAnalyze quietService ?big) = Some SIZE_ERROR_MESSAGE"
    using refused[THEN conjunct2, THEN conjunct1]
    by (simp add: generationState_mode_checks)
  have i: "handleAnalyze quietService ?big = handleAnalyze offlineService ?big"
    using refused[THEN conjunct1] .
  have c: "handleAnalyze quietService ?ok
       = afterAnalyze quietService (resetForAnalysis ?ok)
           (analyzeContent quietService (map file (st_files ?ok))
              GENERATION ''Instagram'' plainConfig ''AIza'')"
    using passed by (simp only: f)
  show ?thesis
    using big e i ok c by (intro conjI)
qed

subsection \<open>Prefixes and substrings\<close>

lemma startsWith_Nil [simp]: "startsWith s [] = True"
  by (simp add: startsWith_def)

lemma startsWith_Cons_Cons [simp]:
  "startsWith (c # cs) (d # ds) = (c = d \<and> startsWith cs ds)"
  by (simp add: startsWith_def)

lemma startsWith_Nil_Cons [simp]: "startsWith [] (d # ds) = False"
  by (simp add: startsWith_def)

lemma startsWith_append: "startsWith (p @ s) p"
  by (simp add: startsWith_def)

lemma includesStr_set: "includesStr s p \<Longrightarrow> set p \<subseteq> set s"
proof (induction s)
  case Nil
  then show ?case by simp
next
  case (Cons c cs)
  show ?case
  proof (cases "startsWith (c # cs) p")
    case True
    then have "p = take (length p) (c # cs)" by (simp only: startsWith_def)
    then have "set p \<subseteq> set (c # cs)" by (metis set_take_subset)
    then show ?thesis .
  next
    case False
    then have "includesStr cs p" using Cons.prems by simp
    then show ?thesis using Cons.IH by auto
  qed
qed

lemma includesStr_prefix: "includesStr (p @ b) p"
proof (cases "p @ b")
  case Nil
  then show ?thesis by simp
next
  case (Cons a l)
  have "startsWith (p @ b) p" by (rule startsWith_append)
  then show ?thesis unfolding Cons by simp
qed

lemma includesStr_skip: "includesStr s p \<Longrightarrow> includesStr (a @ s) p"
  by (induction a) simp_all

subsection \<open>Targeting block\<close>

lemma filter_labelled:
  "filter (\<lambda>s. s \<noteq> []) [labelled label v] = labelledLine label v"
  by (simp add: labelled_def labelledLine_def split: option.splits)

lemma targetingBlock_lines: "targetingBlock config = join ''\<newline>'' (targetingLines config)"
proof -
  have "filter (\<lambda>s. s \<noteq> [])
          ([labelled ''Target Geography: '' (geography config)]
           @ [labelled ''Target Audience: '' (targetAudience config)]
           @ [labelled ''Target Language: '' (targetLanguage config)]
           @ [labelled ''Target Demographics: '' (demographics config)])
        = targetingLines config"
    unfolding filter_append filter_labelled targetingLines_def ..
  then show ?thesis by (simp add: targetingBlock_def)
qed

lemma labelledLine_nonempty: "[] \<notin> set (labelledLine label v)"
  by (simp add: labelledLine_def split: option.splits)

lemma targetingLines_nonempty: "[] \<notin> set (targetingLines config)"
  by (simp add: targetingLines_def labelledLine_nonempty)

lemma splitLines_single: "CHR ''\<newline>'' \<notin> set l \<Longrightarrow> splitLines l = [l]"
  by (induction l) auto

lemma splitLines_append:
  "CHR ''\<newline>'' \<notin> set l \<Longrightarrow> splitLines (l @ CHR ''\<newline>'' # r) = l # splitLines r"
  by (induction l) auto

lemma splitLines_join:
  "ls \<noteq> [] \<Longrightarrow> list_all (\<lambda>l. CHR ''\<newline>'' \<notin> set l) ls \<Longrightarrow>
     splitLines (join ''\<newline>'' ls) = ls"
proof (induction "''\<newline>''" ls rule: join.induct)
  case 1
  then show ?case by simp
next
  case (2 x)
  then show ?case by (simp add: splitLines_single)
next
  case (3 x y ys)
  then show ?case using splitLines_append[of x "join ''\<newline>'' (y # ys)"] by simp
qed

lemma labelledLine_single:
  "CHR ''\<newline>'' \<notin> set label \<Longrightarrow> singleLine v \<Longrightarrow>
     list_all (\<lambda>l. CHR ''\<newline>'' \<notin> set l) (labelledLine label v)"
  by (simp add: labelledLine_def singleLine_def split: option.splits)

lemma targetingLines_single:
  assumes "singleLine (geography config)" "singleLine (targetAudience config)"
    "singleLine (targetLanguage config)" "singleLine (demographics config)"
  shows "list_all (\<lambda>l. CHR ''\<newline>'' \<notin> set l) (targetingLines config)"
  unfolding targetingLines_def list_all_append
  using assms by (intro conjI labelledLine_single) simp_all

lemma generation_contains_targeting:
  "includesStr (MODE_PROMPTS_GENERATION platform g s targeting) targeting"
  unfolding MODE_PROMPTS_GENERATION_def
  by (rule includesStr_prefix | rule includesStr_skip)+

lemma refine_contains_targeting:
  "includesStr (MODE_PROMPTS_REFINE t k targeting) targeting"
  unfolding MODE_PROMPTS_REFINE_def
  by (rule includesStr_prefix | rule includesStr_skip)+

lemma spy_contains_targeting:
  "includesStr (MODE_PROMPTS_COMPETITOR_SPY n targeting) targeting"
  unfolding MODE_PROMPTS_COMPETITOR_SPY_def
  by (rule includesStr_prefix | rule includesStr_skip)+

text \<open>
  In the three standard modes the block is handed to the mode template, which interpolates
  it: the composed prompt contains the block.
\<close>

lemma prompt_contains_targetingBlock:
  assumes "mode \<noteq> TREND_HUNTER"
  shows "\<exists>p. composePrompt d n mode platform config = Inr p
             \<and> includesStr p (targetingBlock config)"
proof -
  have "includesStr
      (case mode of
         GENERATION \<Rightarrow>
           MODE_PROMPTS_GENERATION platform (strOr (goal config) ''Viral Growth'')
             (strOr (style config) ''Authentic'') (targetingBlock config)
       | REFINE \<Rightarrow>
           MODE_PROMPTS_REFINE (strOr (originalText config) [])
             (strOr (keywords config) []) (targetingBlock config)
       | COMPETITOR_SPY \<Rightarrow> MODE_PROMPTS_COMPETITOR_SPY n (targetingBlock config)
       | TREND_HUNTER \<Rightarrow> [])
      (targetingBlock config)"
    using assms
    by (cases mode)
      (simp_all add: generation_contains_targeting refine_contains_targeting
        spy_contains_targeting)
  then show ?thesis
    using assms by (simp add: composePrompt_def Let_def includesStr_skip)
qed

text \<open>
  Claim C8. The targeting block that the composed prompt embeds is the join, with a line break, of the labelled lines of
  exactly those fields among geography, audience, language and demographics that are
  non-empty, in that order. An empty or absent field contributes nothing: no line of the
  list is empty, the block is empty when all four fields are, and when no field spans several
  lines the lines of a non-empty block are exactly the labelled lines.
\<close>

theorem targeting_block_labelled_lines:
  "targetingBlock config = join ''\<newline>'' (targetingLines config)
   \<and> [] \<notin> set (targetingLines config)
   \<and> (targetingLines config = [] \<longrightarrow> targetingBlock config = [])
   \<and> (targetingLines config \<noteq> [] \<and> singleLine (geography config)
        \<and> singleLine (targetAudience config) \<and> singleLine (targetLanguage config)
        \<and> singleLine (demographics config) \<longrightarrow>
        splitLines (targetingBlock config) = targetingLines config
        \<and> [] \<notin> set (splitLines (targetingBlock config)))"
  using targetingBlock_lines[of config] targetingLines_nonempty[of config]
    splitLines_join[of "targetingLines config"] targetingLines_single[of config]
  by auto

text \<open>
  Geography and demographics given, audience empty, language absent: two lines, no gap.
\<close>

theorem targeting_block_labelled_lines_witness:
  "targetingLines (plainConfig\<lparr>geography := Some ''NYC'', targetLanguage := None,
       demographics := Some ''Gen Z''\<rparr>)
     = [''Target Geography: NYC'', ''Target Demographics: Gen Z'']
   \<and> singleLine (Some ''NYC'') \<and> singleLine (Some []) \<and> singleLine None
   \<and> singleLine (Some ''Gen Z'')
   \<and> targetingBlock (plainConfig\<lparr>geography := Some ''NYC'', targetLanguage := None,
       demographics := Some ''Gen Z''\<rparr>)
     = ''Target Geography: NYC\<newline>Target Demographics: Gen Z''
   \<and> splitLines (targetingBlock (plainConfig\<lparr>geography := Some ''NYC'', targetLanguage := None,
       demographics := Some ''Gen Z''\<rparr>))
     = [''Target Geography: NYC'', ''Target Demographics: Gen Z'']"
proof -
  let ?c = "plainConfig\<lparr>geography := Some ''NYC'', targetLanguage := None,
       demographics := Some ''Gen Z''\<rparr>"
  have l: "targetingLines ?c = [''Target Geography: NYC'', ''Target Demographics: Gen Z'']"
    by (simp add: targetingLines_def labelledLine_def plainConfig_def)
  have s: "singleLine (geography ?c)" "singleLine (targetAudience ?c)"
    "singleLine (targetLanguage ?c)" "singleLine (demographics ?c)"
    by (simp_all add: singleLine_def plainConfig_def)
  have s': "singleLine (Some ''NYC'')" "singleLine (Some [])" "singleLine None"
    "singleLine (Some ''Gen Z'')"
    by (simp_all add: singleLine_def)
  show ?thesis
    using targeting_block_labelled_lines[of ?c] l s s' by simp
qed

subsection \<open>Live search instructions in the prompt\<close>

lemma instruction_twitter:
  "includesStr (TREND_HUNTER_INSTRUCTION d (Some ''Twitter (X)'')) TWITTER_STEP_1B"
  unfolding TREND_HUNTER_INSTRUCTION_def
  apply (simp only: simp_thms if_True)
  by (rule includesStr_prefix | rule includesStr_skip)+

lemma instruction_other:
  assumes "platform \<noteq> Some ''Twitter (X)''" and "CHR ''X'' \<notin> set d"
  shows "\<not> includesStr (TREND_HUNTER_INSTRUCTION d platform) TWITTER_STEP_1B"
proof
  assume "includesStr (TREND_HUNTER_INSTRUCTION d platform) TWITTER_STEP_1B"
  then have "set TWITTER_STEP_1B \<subseteq> set (TREND_HUNTER_INSTRUCTION d platform)"
    by (rule includesStr_set)
  moreover have "CHR ''X'' \<in> set TWITTER_STEP_1B"
    by (simp add: TWITTER_STEP_1B_def)
  moreover have "CHR ''X'' \<notin> set (TREND_HUNTER_INSTRUCTION d platform)"
    using assms by (simp add: TREND_HUNTER_INSTRUCTION_def)
  ultimately show False by blast
qed

text \<open>
  In Trend Hunter mode the prompt is the Trend Hunter template alone; it does not begin
  with the live search instruction block.
\<close>

theorem trend_hunter_prompt_without_instruction_block:
  "composePrompt ''November 2026'' 0 TREND_HUNTER ''Instagram''
      (plainConfig\<lparr>niche := Some ''Vegan Cooking''\<rparr>)
     = Inr (MODE_PROMPTS_TREND_HUNTER ''Vegan Cooking'' ''November 2026'')
   \<and> \<not> startsWith (MODE_PROMPTS_TREND_HUNTER ''Vegan Cooking'' ''November 2026'')
          (TREND_HUNTER_INSTRUCTION ''November 2026'' (Some ''Instagram''))"
proof -
  have "composePrompt ''November 2026'' 0 TREND_HUNTER ''Instagram''
      (plainConfig\<lparr>niche := Some ''Vegan Cooking''\<rparr>)
     = Inr (MODE_PROMPTS_TREND_HUNTER ''Vegan Cooking'' ''November 2026'')"
    by (simp add: composePrompt_def Let_def plainConfig_def)
  moreover have "\<not> startsWith (MODE_PROMPTS_TREND_HUNTER ''Vegan Cooking'' ''November 2026'')
          (TREND_HUNTER_INSTRUCTION ''November 2026'' (Some ''Instagram''))"
    by (simp add: MODE_PROMPTS_TREND_HUNTER_def TREND_HUNTER_INSTRUCTION_def)
  ultimately show ?thesis by blast
qed

text \<open>The same for every niche, date and platform.\<close>

lemma trend_hunter_prompt_is_template:
  assumes "niche config = Some n" and "n \<noteq> []"
  shows "composePrompt d k TREND_HUNTER platform config = Inr (MODE_PROMPTS_TREND_HUNTER n d)
       \<and> \<not> startsWith (MODE_PROMPTS_TREND_HUNTER n d) (TREND_HUNTER_INSTRUCTION d (Some platform))"
proof -
  have "composePrompt d k TREND_HUNTER platform config = Inr (MODE_PROMPTS_TREND_HUNTER n d)"
    using assms by (simp add: composePrompt_def Let_def)
  moreover have "\<not> startsWith (MODE_PROMPTS_TREND_HUNTER n d)
      (TREND_HUNTER_INSTRUCTION d (Some platform))"
    by (simp add: MODE_PROMPTS_TREND_HUNTER_def TREND_HUNTER_INSTRUCTION_def)
  ultimately show ?thesis by blast
qed

text \<open>
  Claim C6, amended. In every mode other than Trend Hunter, when \<open>enableLiveTrends\<close> is true
  the prompt begins with the live search instruction block for the current date and the
  platform, followed by an empty line. The block contains the Twitter step exactly when the
  platform is \<open>Twitter (X)\<close> (for a date text without the letter X, which the step contains
  and the rest of the block does not).
\<close>

theorem live_trends_prompt_prefix:
  assumes "mode \<noteq> TREND_HUNTER" and "enableLiveTrends config = Some True"
  shows "(\<exists>rest. composePrompt d n mode platform config
                  = Inr (TREND_HUNTER_INSTRUCTION d (Some platform) @ ''\<newline>\<newline>'' @ rest))
       \<and> (\<exists>p. composePrompt d n mode platform config = Inr p
              \<and> startsWith p (TREND_HUNTER_INSTRUCTION d (Some platform)))
       \<and> (CHR ''X'' \<notin> set d \<longrightarrow>
            includesStr (TREND_HUNTER_INSTRUCTION d (Some platform)) TWITTER_STEP_1B
              = (platform = ''Twitter (X)''))"
proof -
  have 1: "\<exists>rest. composePrompt d n mode platform config
                  = Inr (TREND_HUNTER_INSTRUCTION d (Some platform) @ ''\<newline>\<newline>'' @ rest)"
    using assms by (simp add: composePrompt_def Let_def truthyBool_def)
  then obtain rest where r: "composePrompt d n mode platform config
       = Inr (TREND_HUNTER_INSTRUCTION d (Some platform) @ ''\<newline>\<newline>'' @ rest)"
    by blast
  have 2: "\<exists>p. composePrompt d n mode platform config = Inr p
              \<and> startsWith p (TREND_HUNTER_INSTRUCTION d (Some platform))"
    using r startsWith_append by blast
  have 3: "CHR ''X'' \<notin> set d \<longrightarrow>
            includesStr (TREND_HUNTER_INSTRUCTION d (Some platform)) TWITTER_STEP_1B
              = (platform = ''Twitter (X)'')"
    using instruction_twitter[of d] instruction_other[of "Some platform" d] by auto
  show ?thesis using 1 2 3 by blast
qed

text \<open>Generation for Twitter with live trends, in November 2026.\<close>

theorem live_trends_prompt_prefix_witness:
  "GENERATION \<noteq> TREND_HUNTER
   \<and> enableLiveTrends (plainConfig\<lparr>enableLiveTrends := Some True\<rparr>) = Some True
   \<and> CHR ''X'' \<notin> set ''November 2026''
   \<and> (\<exists>p. composePrompt ''November 2026'' 1 GENERATION ''Twitter (X)''
              (plainConfig\<lparr>enableLiveTrends := Some True\<rparr>) = Inr p
          \<and> startsWith p (TREND_HUNTER_INSTRUCTION ''November 2026'' (Some ''Twitter (X)'')))
   \<and> includesStr (TREND_HUNTER_INSTRUCTION ''November 2026'' (Some ''Twitter (X)''))
        TWITTER_STEP_1B"
proof -
  have m: "GENERATION \<noteq> TREND_HUNTER" by simp
  have e: "enableLiveTrends (plainConfig\<lparr>enableLiveTrends := Some True\<rparr>) = Some True" by simp
  have x: "CHR ''X'' \<notin> set ''November 2026''" by simp
  show ?thesis
    using live_trends_prompt_prefix[OF m e, of "''November 2026''" 1 "''Twitter (X)''"] m e x
    by simp
qed

end
